theory Spec2Isabelle
  imports Main "HOL-Library.Sublist" "HOL-Library.AList" "HOL-Library.Word"
begin

section \<open>Node-group lifecycle of the OpenStack autoscaler\<close>

text \<open>
  A shallow embedding of \<^verbatim>\<open>pkg/provider\<close> (the provider and its node groups) and of the
  gRPC adapter in \<^verbatim>\<open>pkg/grpc\<close>. A value of Go's \<^verbatim>\<open>int\<close> is an \<^typ>\<open>int\<close> here, and
  where the code adds or multiplies two of them the result wraps around at 64 bits, as on
  the platforms the service is built for. Two sums are left exact because they cannot
  leave the range: the counter of a loop over a slice, and the sum of a count, which is
  not negative, and a negative delta. Locks are not modelled: every operation runs to
  completion on its own.
\<close>

subsection \<open>Integers\<close>

text \<open>Addition and multiplication on Go's \<^verbatim>\<open>int\<close>, 64 bits wide, wrapping around.\<close>

definition int64_add :: "int \<Rightarrow> int \<Rightarrow> int" where
  "int64_add a b = sint (word_of_int a + word_of_int b :: 64 word)"

definition int64_mul :: "int \<Rightarrow> int \<Rightarrow> int" where
  "int64_mul a b = sint (word_of_int a * word_of_int b :: 64 word)"

subsection \<open>Strings\<close>

text \<open>\<^verbatim>\<open>strings.TrimPrefix\<close> and \<^verbatim>\<open>strings.Contains\<close> of Go's standard library.\<close>

definition TrimPrefix :: "string \<Rightarrow> string \<Rightarrow> string" where
  "TrimPrefix s p = (if prefix p s then drop (length p) s else s)"

fun Contains :: "string \<Rightarrow> string \<Rightarrow> bool" where
  "Contains [] substr = (substr = [])"
| "Contains (c # s) substr = (prefix substr (c # s) \<or> Contains s substr)"

text \<open>Decimal formatting of an integer, the \<^verbatim>\<open>%d\<close> verb of \<^verbatim>\<open>fmt.Sprintf\<close>.\<close>

fun digits :: "nat \<Rightarrow> string" where
  "digits n = (if n < 10 then [''0123456789'' ! n]
               else digits (n div 10) @ [''0123456789'' ! (n mod 10)])"

declare digits.simps [simp del]

definition Itoa :: "int \<Rightarrow> string" where
  "Itoa i = (if i < 0 then CHR ''-'' # digits (nat (- i)) else digits (nat i))"

text \<open>\<^verbatim>\<open>base64.StdEncoding.EncodeToString\<close>: three bytes become four characters, padded with \<^verbatim>\<open>=\<close>.\<close>

definition b64 :: "nat \<Rightarrow> char" where
  "b64 n = ''ABCDEFGHIJKLMNOPQRSTUVWXYZabcdefghijklmnopqrstuvwxyz0123456789+/'' ! (n mod 64)"

fun EncodeToString :: "string \<Rightarrow> string" where
  "EncodeToString [] = []"
| "EncodeToString [a] =
     (let x = (of_char a :: nat)
      in [b64 (x div 4), b64 ((x mod 4) * 16), CHR ''='', CHR ''=''])"
| "EncodeToString [a, b] =
     (let x = (of_char a :: nat); y = (of_char b :: nat)
      in [b64 (x div 4), b64 ((x mod 4) * 16 + y div 16), b64 ((y mod 16) * 4), CHR ''=''])"
| "EncodeToString (a # b # c # rest) =
     (let x = (of_char a :: nat); y = (of_char b :: nat); z = (of_char c :: nat)
      in [b64 (x div 4), b64 ((x mod 4) * 16 + y div 16), b64 ((y mod 16) * 4 + z div 64), b64 z]
         @ EncodeToString rest)"

subsection \<open>Data\<close>

text \<open>\<^verbatim>\<open>config.NodeGroupConfig\<close>.\<close>

record NodeGroupConfig =
  ID :: string
  Name :: string
  MinSize :: int
  MaxSize :: int
  FlavorName :: string
  ImageName :: string
  ImageID :: string
  KeyName :: string
  SecurityGroups :: "string list"
  NetworkID :: string
  SubnetID :: string
  FloatingIPPool :: string
  AvailabilityZone :: string
  UserData :: string
  UserDataFile :: string
  Metadata :: "string \<rightharpoonup> string"
  Labels :: "string \<rightharpoonup> string"

text \<open>
  The types of the infrastructure client that the code reads and writes: a server, a
  flavor, an image and the options of a create request, each with the fields the code uses.
\<close>

record Server =
  Server_ID :: string
  Server_Name :: string
  Server_Status :: string
  Server_Metadata :: "string \<rightharpoonup> string"

record Flavor =
  Flavor_ID :: string
  Flavor_Name :: string
  Flavor_VCPUs :: int
  Flavor_RAM :: int

record Image =
  Image_ID :: string
  Image_Name :: string

record CreateOpts =
  Opts_Name :: string
  Opts_ImageRef :: string
  Opts_FlavorRef :: string
  Opts_UserData :: string
  Opts_Metadata :: "string \<rightharpoonup> string"
  Opts_SecurityGroups :: "string list"
  Opts_AvailabilityZone :: string
  Opts_Networks :: "string list"

text \<open>A Kubernetes node object: what a caller passes to delete, and what a template is.\<close>

datatype Format = DecimalSI | BinarySI

datatype Quantity = NewQuantity int Format

record Node =
  Node_Name :: string
  Node_Labels :: "string \<rightharpoonup> string"
  Node_Annotations :: "string \<rightharpoonup> string"
  Node_ProviderID :: string
  Node_Capacity :: "string \<rightharpoonup> Quantity"
  Node_Allocatable :: "string \<rightharpoonup> Quantity"
  Node_Conditions :: "(string \<times> string) list"

text \<open>
  \<^verbatim>\<open>OpenStackNodeGroup\<close>: the configuration and the template cache. The cached template
  is a pointer, here an address into the heap of node objects; \<open>None\<close> is \<^verbatim>\<open>nil\<close>.
  \<open>lastRefresh\<close> is a time in nanoseconds.
\<close>

record OpenStackNodeGroup =
  Config :: NodeGroupConfig
  templateNodeInfo :: "nat option"
  lastRefresh :: int

subsection \<open>Errors\<close>

text \<open>
  The calls the code issues to the infrastructure API, and the errors the code builds with
  \<^verbatim>\<open>fmt.Errorf\<close>: one constructor for each message without a cause, \<open>Wrap\<close> for a message
  that wraps a cause with \<^verbatim>\<open>%w\<close>, \<open>ApiError\<close> for an error the API client returns from
  a request and \<open>DecodeError\<close> for one it returns when it cannot decode the pages of a list.
\<close>

datatype api_call =
    ServersList
  | ServersGet string
  | ServersCreate CreateOpts
  | ServersDelete string
  | FlavorsGet string
  | FlavorsListDetail
  | ImagesList string

datatype error =
    DeltaMustBePositive int
  | DeltaMustBeNegative int
  | CannotIncreaseSize int int
  | CannotDecreaseSize int int
  | InvalidProviderIDFormat string
  | FlavorNotFound string
  | ImageNotFound string
  | ConfigError string
  | ApiError api_call
  | DecodeError api_call
  | Wrap string error

type_synonym 'a result = "error + 'a"

text \<open>The taxonomy the specification gives to these errors (its section 7).\<close>

datatype error_kind =
  InvalidArgument | NotFound | CapacityExceeded | BackendUnavailable | ConfigurationInvalid

fun kind :: "error \<Rightarrow> error_kind" where
  "kind (DeltaMustBePositive d) = InvalidArgument"
| "kind (DeltaMustBeNegative d) = InvalidArgument"
| "kind (CannotIncreaseSize n m) = CapacityExceeded"
| "kind (CannotDecreaseSize n m) = CapacityExceeded"
| "kind (InvalidProviderIDFormat p) = InvalidArgument"
| "kind (FlavorNotFound f) = NotFound"
| "kind (ImageNotFound i) = NotFound"
| "kind (ConfigError m) = ConfigurationInvalid"
| "kind (ApiError c) = BackendUnavailable"
| "kind (DecodeError c) = BackendUnavailable"
| "kind (Wrap m e) = kind e"

subsection \<open>The world outside the node group\<close>

text \<open>
  The infrastructure API is not part of the repository; it is modelled after the interface
  the specification gives it (section 6): create, delete, get and list of instances, get
  and list of machine types, list of images. The state the operations run against is a
  world: the servers, flavors and images the backend holds,
  a script saying for each coming API call how it ends and how long it takes,
  the log of the calls issued so far, the clock in nanoseconds, the heap of node
  objects of the process (an address is an index into it), and, for each coming
  \<^verbatim>\<open>range\<close> over the directory of groups, the order in which the runtime visits the keys.
\<close>

datatype outcome = Answered | Failed | Garbled

datatype reply = Reply outcome nat

record world =
  servers :: "Server list"
  flavors :: "Flavor list"
  images :: "Image list"
  script :: "reply list"
  calls :: "api_call list"
  now :: int
  heap :: "Node list"
  ranges :: "string list list"

text \<open>
  One round trip: the call is logged, the next reply of the script is consumed and the
  clock advances by its duration. The call is answered, or it fails, or its answer cannot
  be decoded. With the script used up a call is answered at once.
\<close>

definition request :: "api_call \<Rightarrow> world \<Rightarrow> outcome \<times> world" where
  "request c w =
     (case script w of
        [] \<Rightarrow> (Answered, w\<lparr>calls := calls w @ [c]\<rparr>)
      | Reply out d # rs \<Rightarrow> (out, w\<lparr>script := rs, calls := calls w @ [c], now := now w + int d\<rparr>))"

text \<open>
  The list calls come in two steps, \<^verbatim>\<open>AllPages\<close> and then an extraction that decodes the
  pages; pages that cannot be decoded are \<open>None\<close>. The other calls decode their answer
  themselves and return one error for both failures, with no effect on the backend.
\<close>

definition servers_List :: "world \<Rightarrow> Server list option result \<times> world" where
  "servers_List w =
     (case request ServersList w of
        (Answered, w') \<Rightarrow> (Inr (Some (servers w')), w')
      | (Garbled, w') \<Rightarrow> (Inr None, w')
      | (Failed, w') \<Rightarrow> (Inl (ApiError ServersList), w'))"

definition ExtractServers :: "Server list option \<Rightarrow> Server list result" where
  "ExtractServers allPages =
     (case allPages of None \<Rightarrow> Inl (DecodeError ServersList) | Some allServers \<Rightarrow> Inr allServers)"

definition servers_Get :: "string \<Rightarrow> world \<Rightarrow> Server result \<times> world" where
  "servers_Get sid w =
     (case request (ServersGet sid) w of
        (Answered, w') \<Rightarrow>
          (case find (\<lambda>s. Server_ID s = sid) (servers w') of
             Some s \<Rightarrow> (Inr s, w')
           | None \<Rightarrow> (Inl (ApiError (ServersGet sid)), w'))
      | (out, w') \<Rightarrow> (Inl (ApiError (ServersGet sid)), w'))"

text \<open>
  A created server enters the backend's list with the name and metadata of the request,
  in status \<^verbatim>\<open>BUILD\<close>, under an identifier the backend chooses.
\<close>

definition servers_Create :: "CreateOpts \<Rightarrow> world \<Rightarrow> Server result \<times> world" where
  "servers_Create opts w =
     (case request (ServersCreate opts) w of
        (Answered, w') \<Rightarrow>
          (let s = \<lparr>Server_ID = ''srv-'' @ Itoa (int (length (calls w'))),
                    Server_Name = Opts_Name opts,
                    Server_Status = ''BUILD'',
                    Server_Metadata = Opts_Metadata opts\<rparr>
           in (Inr s, w'\<lparr>servers := servers w' @ [s]\<rparr>))
      | (out, w') \<Rightarrow> (Inl (ApiError (ServersCreate opts)), w'))"

definition servers_Delete :: "string \<Rightarrow> world \<Rightarrow> unit result \<times> world" where
  "servers_Delete sid w =
     (case request (ServersDelete sid) w of
        (Answered, w') \<Rightarrow>
          (case find (\<lambda>s. Server_ID s = sid) (servers w') of
             Some s \<Rightarrow> (Inr (), w'\<lparr>servers := filter (\<lambda>s. Server_ID s \<noteq> sid) (servers w')\<rparr>)
           | None \<Rightarrow> (Inl (ApiError (ServersDelete sid)), w'))
      | (out, w') \<Rightarrow> (Inl (ApiError (ServersDelete sid)), w'))"

definition flavors_Get :: "string \<Rightarrow> world \<Rightarrow> Flavor result \<times> world" where
  "flavors_Get fid w =
     (case request (FlavorsGet fid) w of
        (Answered, w') \<Rightarrow>
          (case find (\<lambda>f. Flavor_ID f = fid) (flavors w') of
             Some f \<Rightarrow> (Inr f, w')
           | None \<Rightarrow> (Inl (ApiError (FlavorsGet fid)), w'))
      | (out, w') \<Rightarrow> (Inl (ApiError (FlavorsGet fid)), w'))"

definition flavors_ListDetail :: "world \<Rightarrow> Flavor list option result \<times> world" where
  "flavors_ListDetail w =
     (case request FlavorsListDetail w of
        (Answered, w') \<Rightarrow> (Inr (Some (flavors w')), w')
      | (Garbled, w') \<Rightarrow> (Inr None, w')
      | (Failed, w') \<Rightarrow> (Inl (ApiError FlavorsListDetail), w'))"

definition ExtractFlavors :: "Flavor list option \<Rightarrow> Flavor list result" where
  "ExtractFlavors allPages =
     (case allPages of None \<Rightarrow> Inl (DecodeError FlavorsListDetail) | Some allFlavors \<Rightarrow> Inr allFlavors)"

definition images_List :: "string \<Rightarrow> world \<Rightarrow> Image list option result \<times> world" where
  "images_List name w =
     (case request (ImagesList name) w of
        (Answered, w') \<Rightarrow> (Inr (Some (filter (\<lambda>i. Image_Name i = name) (images w'))), w')
      | (Garbled, w') \<Rightarrow> (Inr None, w')
      | (Failed, w') \<Rightarrow> (Inl (ApiError (ImagesList name)), w'))"

definition ExtractImages :: "string \<Rightarrow> Image list option \<Rightarrow> Image list result" where
  "ExtractImages name allPages =
     (case allPages of None \<Rightarrow> Inl (DecodeError (ImagesList name)) | Some allImages \<Rightarrow> Inr allImages)"

text \<open>The clock: \<^verbatim>\<open>time.Now().Unix()\<close>, and \<^verbatim>\<open>time.Since\<close>, which saturates at the range of a duration.\<close>

definition Unix :: "world \<Rightarrow> int" where
  "Unix w = now w div 1000000000"

definition Since :: "int \<Rightarrow> world \<Rightarrow> int" where
  "Since t w = max (- (2 ^ 63)) (min (2 ^ 63 - 1) (now w - t))"

definition Minute :: int where
  "Minute = 60000000000"

definition zeroTime :: int where
  "zeroTime = - 62135596800000000000"

subsection \<open>The node group\<close>

definition ProviderName :: string where
  "ProviderName = ''openstack''"

text \<open>\<^verbatim>\<open>validateConfig\<close> and \<^verbatim>\<open>NewOpenStackNodeGroup\<close>.\<close>

definition validateConfig :: "NodeGroupConfig \<Rightarrow> unit result" where
  "validateConfig cfg =
     (if ID cfg = [] then Inl (ConfigError ''node group ID is required'')
      else if MinSize cfg < 0 then Inl (ConfigError ''minSize cannot be negative'')
      else if MaxSize cfg < MinSize cfg
        then Inl (ConfigError (''maxSize ('' @ Itoa (MaxSize cfg) @ '') must be >= minSize (''
                                @ Itoa (MinSize cfg) @ '')''))
      else if FlavorName cfg = [] then Inl (ConfigError ''flavorName is required'')
      else if ImageName cfg = [] \<and> ImageID cfg = []
        then Inl (ConfigError ''either imageName or imageId is required'')
      else Inr ())"

definition NewOpenStackNodeGroup :: "NodeGroupConfig \<Rightarrow> OpenStackNodeGroup result" where
  "NewOpenStackNodeGroup cfg =
     (case validateConfig cfg of
        Inl e \<Rightarrow> Inl (Wrap ''invalid node group configuration'' e)
      | Inr u \<Rightarrow> Inr \<lparr>Config = cfg, templateNodeInfo = None, lastRefresh = zeroTime\<rparr>)"

text \<open>\<^verbatim>\<open>ContainsNode\<close>: the metadata key decides when it is there, the name otherwise.\<close>

definition ContainsNode :: "OpenStackNodeGroup \<Rightarrow> Server \<Rightarrow> bool" where
  "ContainsNode ng server =
     (case Server_Metadata server ''nodegroup'' of
        Some nodeGroupID \<Rightarrow> nodeGroupID = ID (Config ng)
      | None \<Rightarrow> Contains (Server_Name server) (ID (Config ng)))"

text \<open>\<^verbatim>\<open>getInstances\<close>: list every server, keep those of this group, in the order listed.\<close>

fun groupServers :: "OpenStackNodeGroup \<Rightarrow> Server list \<Rightarrow> Server list \<Rightarrow> Server list" where
  "groupServers ng acc [] = acc"
| "groupServers ng acc (server # rest) =
     (if ContainsNode ng server then groupServers ng (acc @ [server]) rest
      else groupServers ng acc rest)"

definition getInstances :: "OpenStackNodeGroup \<Rightarrow> world \<Rightarrow> Server list result \<times> world" where
  "getInstances ng w =
     (case servers_List w of
        (Inl e, w') \<Rightarrow> (Inl (Wrap ''failed to list servers'' e), w')
      | (Inr allPages, w') \<Rightarrow>
          (case ExtractServers allPages of
             Inl e \<Rightarrow> (Inl (Wrap ''failed to extract servers'' e), w')
           | Inr allServers \<Rightarrow> (Inr (groupServers ng [] allServers), w')))"

text \<open>\<^verbatim>\<open>TargetSize\<close>: the loop counts the instances that are running or being created.\<close>

fun countInstances :: "int \<Rightarrow> Server list \<Rightarrow> int" where
  "countInstances count [] = count"
| "countInstances count (instance # rest) =
     (if Server_Status instance = ''ACTIVE'' \<or> Server_Status instance = ''BUILD''
      then countInstances (count + 1) rest
      else countInstances count rest)"

definition TargetSize :: "OpenStackNodeGroup \<Rightarrow> world \<Rightarrow> int result \<times> world" where
  "TargetSize ng w =
     (case getInstances ng w of
        (Inl e, w') \<Rightarrow> (Inl (Wrap ''failed to get instances'' e), w')
      | (Inr instances, w') \<Rightarrow> (Inr (countInstances 0 instances), w'))"

definition Nodes :: "OpenStackNodeGroup \<Rightarrow> world \<Rightarrow> Server list result \<times> world" where
  "Nodes ng w =
     (case getInstances ng w of
        (Inl e, w') \<Rightarrow> (Inl (Wrap ''failed to get instances'' e), w')
      | (Inr instances, w') \<Rightarrow> (Inr instances, w'))"

text \<open>
  \<^verbatim>\<open>getFlavor\<close>: a direct get under the configured name and, when that fails, a scan of
  the whole catalogue for the name. \<^verbatim>\<open>getImageID\<close>: the configured identifier, or the
  first image the catalogue lists under the configured name.
\<close>

definition getFlavor :: "OpenStackNodeGroup \<Rightarrow> world \<Rightarrow> Flavor result \<times> world" where
  "getFlavor ng w =
     (case flavors_Get (FlavorName (Config ng)) w of
        (Inr flavor, w1) \<Rightarrow> (Inr flavor, w1)
      | (Inl e, w1) \<Rightarrow>
          (case flavors_ListDetail w1 of
             (Inl e2, w2) \<Rightarrow> (Inl (Wrap ''failed to list flavors'' e2), w2)
           | (Inr allPages, w2) \<Rightarrow>
               (case ExtractFlavors allPages of
                  Inl e3 \<Rightarrow> (Inl (Wrap ''failed to extract flavors'' e3), w2)
                | Inr allFlavors \<Rightarrow>
                    (case find (\<lambda>f. Flavor_Name f = FlavorName (Config ng)) allFlavors of
                       Some f \<Rightarrow> (Inr f, w2)
                     | None \<Rightarrow> (Inl (FlavorNotFound (FlavorName (Config ng))), w2)))))"

definition getImageID :: "OpenStackNodeGroup \<Rightarrow> world \<Rightarrow> string result \<times> world" where
  "getImageID ng w =
     (if ImageID (Config ng) \<noteq> [] then (Inr (ImageID (Config ng)), w)
      else
        (case images_List (ImageName (Config ng)) w of
           (Inl e, w1) \<Rightarrow> (Inl (Wrap ''failed to list images'' e), w1)
         | (Inr allPages, w1) \<Rightarrow>
             (case ExtractImages (ImageName (Config ng)) allPages of
                Inl e2 \<Rightarrow> (Inl (Wrap ''failed to extract images'' e2), w1)
              | Inr [] \<Rightarrow> (Inl (ImageNotFound (ImageName (Config ng))), w1)
              | Inr (img # others) \<Rightarrow> (Inr (Image_ID img), w1))))"

text \<open>
  \<^verbatim>\<open>createServer\<close>. The metadata map of the request is the one the code goes on writing
  \<^verbatim>\<open>key_name\<close> into after it has built the options, so the request carries that key too.
\<close>

definition serverMetadata :: "NodeGroupConfig \<Rightarrow> string \<rightharpoonup> string" where
  "serverMetadata cfg =
     (let metadata = (Metadata cfg)(''nodegroup'' \<mapsto> ID cfg, ''created_by'' \<mapsto> ''openstack-autoscaler'')
      in if KeyName cfg \<noteq> [] then metadata(''key_name'' \<mapsto> KeyName cfg) else metadata)"

definition createOpts :: "NodeGroupConfig \<Rightarrow> string \<Rightarrow> Flavor \<Rightarrow> int \<Rightarrow> CreateOpts" where
  "createOpts cfg imageID flavor unix =
     \<lparr>Opts_Name = ID cfg @ ''-'' @ Itoa unix,
      Opts_ImageRef = imageID,
      Opts_FlavorRef = Flavor_ID flavor,
      Opts_UserData = (if UserData cfg \<noteq> [] then EncodeToString (UserData cfg) else []),
      Opts_Metadata = serverMetadata cfg,
      Opts_SecurityGroups = SecurityGroups cfg,
      Opts_AvailabilityZone = AvailabilityZone cfg,
      Opts_Networks = (if NetworkID cfg \<noteq> [] then [NetworkID cfg] else [])\<rparr>"

definition createServer :: "OpenStackNodeGroup \<Rightarrow> world \<Rightarrow> unit result \<times> world" where
  "createServer ng w =
     (case getImageID ng w of
        (Inl e, w1) \<Rightarrow> (Inl (Wrap ''failed to get image ID'' e), w1)
      | (Inr imageID, w1) \<Rightarrow>
          (case getFlavor ng w1 of
             (Inl e, w2) \<Rightarrow> (Inl (Wrap ''failed to get flavor'' e), w2)
           | (Inr flavor, w2) \<Rightarrow>
               (case servers_Create (createOpts (Config ng) imageID flavor (Unix w2)) w2 of
                  (Inl e, w3) \<Rightarrow> (Inl (Wrap ''failed to create server'' e), w3)
                | (Inr server, w3) \<Rightarrow> (Inr (), w3))))"

text \<open>\<^verbatim>\<open>IncreaseSize\<close>, with its loop \<^verbatim>\<open>for i := 0; i < delta; i++\<close>.\<close>

function createServers :: "OpenStackNodeGroup \<Rightarrow> int \<Rightarrow> int \<Rightarrow> world \<Rightarrow> unit result \<times> world" where
  "createServers ng i delta w =
     (if i < delta then
        (case createServer ng w of
           (Inl e, w') \<Rightarrow> (Inl (Wrap ''failed to create server'' e), w')
         | (Inr u, w') \<Rightarrow> createServers ng (i + 1) delta w')
      else (Inr (), w))"
  by pat_completeness auto
termination
  by (relation "measure (\<lambda>(ng, i, delta, w). nat (delta - i))") auto

declare createServers.simps [simp del]

definition IncreaseSize :: "OpenStackNodeGroup \<Rightarrow> int \<Rightarrow> world \<Rightarrow> unit result \<times> world" where
  "IncreaseSize ng delta w =
     (if delta \<le> 0 then (Inl (DeltaMustBePositive delta), w)
      else
        (case TargetSize ng w of
           (Inl e, w1) \<Rightarrow> (Inl (Wrap ''failed to get current size'' e), w1)
         | (Inr currentSize, w1) \<Rightarrow>
             (let newSize = int64_add currentSize delta
              in if newSize > MaxSize (Config ng)
                 then (Inl (CannotIncreaseSize newSize (MaxSize (Config ng))), w1)
                 else createServers ng 0 delta w1)))"

text \<open>
  \<^verbatim>\<open>DecreaseTargetSize\<close>: the checks, and nothing else. Its sum is that of a count and a
  negative delta.
\<close>

definition DecreaseTargetSize :: "OpenStackNodeGroup \<Rightarrow> int \<Rightarrow> world \<Rightarrow> unit result \<times> world" where
  "DecreaseTargetSize ng delta w =
     (if delta \<ge> 0 then (Inl (DeltaMustBeNegative delta), w)
      else
        (case TargetSize ng w of
           (Inl e, w1) \<Rightarrow> (Inl (Wrap ''failed to get current size'' e), w1)
         | (Inr currentSize, w1) \<Rightarrow>
             (let newSize = currentSize + delta
              in if newSize < MinSize (Config ng)
                 then (Inl (CannotDecreaseSize newSize (MinSize (Config ng))), w1)
                 else (Inr (), w1))))"

text \<open>\<^verbatim>\<open>deleteNode\<close> and \<^verbatim>\<open>DeleteNodes\<close>, which stops at the first node that fails.\<close>

definition deleteNode :: "OpenStackNodeGroup \<Rightarrow> Node \<Rightarrow> world \<Rightarrow> unit result \<times> world" where
  "deleteNode ng node w =
     (let providerID = Node_ProviderID node;
          serverID = TrimPrefix providerID (ProviderName @ ''://'')
      in if serverID = providerID then (Inl (InvalidProviderIDFormat providerID), w)
         else
           (case servers_Delete serverID w of
              (Inl e, w') \<Rightarrow> (Inl (Wrap (''failed to delete server '' @ serverID) e), w')
            | (Inr u, w') \<Rightarrow> (Inr (), w')))"

fun DeleteNodes :: "OpenStackNodeGroup \<Rightarrow> Node list \<Rightarrow> world \<Rightarrow> unit result \<times> world" where
  "DeleteNodes ng [] w = (Inr (), w)"
| "DeleteNodes ng (node # nodes) w =
     (case deleteNode ng node w of
        (Inl e, w') \<Rightarrow> (Inl (Wrap (''failed to delete node '' @ Node_Name node) e), w')
      | (Inr u, w') \<Rightarrow> DeleteNodes ng nodes w')"

text \<open>
  The template cache. \<^verbatim>\<open>buildTemplateNodeInfo\<close> allocates the node it describes;
  \<^verbatim>\<open>DeepCopy\<close> allocates a second object with the same contents.
\<close>

definition alloc :: "Node \<Rightarrow> world \<Rightarrow> nat \<times> world" where
  "alloc node w = (length (heap w), w\<lparr>heap := heap w @ [node]\<rparr>)"

definition DeepCopy :: "nat \<Rightarrow> world \<Rightarrow> nat \<times> world" where
  "DeepCopy p w = alloc (heap w ! p) w"

definition ResourceQuantity :: "int \<Rightarrow> Quantity" where
  "ResourceQuantity v = NewQuantity v DecimalSI"

definition ResourceQuantityFromBytes :: "int \<Rightarrow> Quantity" where
  "ResourceQuantityFromBytes bytes = NewQuantity bytes BinarySI"

definition templateNode :: "NodeGroupConfig \<Rightarrow> Flavor \<Rightarrow> Node" where
  "templateNode cfg flavor =
     \<lparr>Node_Name = ID cfg @ ''-template'',
      Node_Labels =
        [''kubernetes.io/arch'' \<mapsto> ''amd64'',
         ''kubernetes.io/os'' \<mapsto> ''linux'',
         ''node.kubernetes.io/instance-type'' \<mapsto> Flavor_Name flavor] ++ Labels cfg,
      Node_Annotations = Map.empty,
      Node_ProviderID = ProviderName @ ''://template-'' @ ID cfg,
      Node_Capacity =
        [''cpu'' \<mapsto> ResourceQuantity (Flavor_VCPUs flavor),
         ''memory'' \<mapsto> ResourceQuantityFromBytes (int64_mul (int64_mul (Flavor_RAM flavor) 1024) 1024)],
      Node_Allocatable =
        [''cpu'' \<mapsto> ResourceQuantity (Flavor_VCPUs flavor),
         ''memory'' \<mapsto> ResourceQuantityFromBytes (int64_mul (int64_mul (Flavor_RAM flavor) 1024) 1024)],
      Node_Conditions = [(''Ready'', ''True'')]\<rparr>"

definition buildTemplateNodeInfo :: "OpenStackNodeGroup \<Rightarrow> world \<Rightarrow> nat result \<times> world" where
  "buildTemplateNodeInfo ng w =
     (case getFlavor ng w of
        (Inl e, w1) \<Rightarrow> (Inl (Wrap ''failed to get flavor'' e), w1)
      | (Inr flavor, w1) \<Rightarrow>
          (case alloc (templateNode (Config ng) flavor) w1 of
             (node, w2) \<Rightarrow> (Inr node, w2)))"

definition TemplateNodeInfo ::
  "OpenStackNodeGroup \<Rightarrow> world \<Rightarrow> nat result \<times> OpenStackNodeGroup \<times> world" where
  "TemplateNodeInfo ng w =
     (if templateNodeInfo ng \<noteq> None \<and> Since (lastRefresh ng) w < 10 * Minute
      then
        (case DeepCopy (the (templateNodeInfo ng)) w of
           (copy, w') \<Rightarrow> (Inr copy, ng, w'))
      else
        (case buildTemplateNodeInfo ng w of
           (Inl e, w1) \<Rightarrow> (Inl (Wrap ''failed to build template node info'' e), ng, w1)
         | (Inr node, w1) \<Rightarrow>
             (case DeepCopy node w1 of
                (copy, w2) \<Rightarrow>
                  (Inr copy, ng\<lparr>templateNodeInfo := Some node, lastRefresh := now w1\<rparr>, w2))))"

definition Refresh :: "OpenStackNodeGroup \<Rightarrow> OpenStackNodeGroup" where
  "Refresh ng = ng\<lparr>templateNodeInfo := None, lastRefresh := zeroTime\<rparr>"

subsection \<open>The provider\<close>

text \<open>
  \<^verbatim>\<open>OpenStackProvider\<close>: the directory of node groups, a Go map, kept here as an
  association list; an assignment to a key is \<^const>\<open>AList.update\<close>. The two API clients
  are the world above.
\<close>

record OpenStackProvider =
  nodeGroups :: "(string \<times> OpenStackNodeGroup) list"

definition NewOpenStackProvider :: OpenStackProvider where
  "NewOpenStackProvider = \<lparr>nodeGroups = []\<rparr>"

text \<open>
  A \<^verbatim>\<open>range\<close> over a Go map visits the entries in an order the runtime chooses anew each
  time. The world says which: the keys it names come first, in its order, then the entries
  it does not name; with no order left, the entries come as they are stored.
\<close>

definition visit :: "string list \<Rightarrow> (string \<times> 'v) list \<Rightarrow> (string \<times> 'v) list" where
  "visit order al =
     List.map_filter (\<lambda>k. map_option (Pair k) (map_of al k)) (remdups order)
     @ filter (\<lambda>entry. fst entry \<notin> set order) al"

definition rangeNodeGroups ::
  "OpenStackProvider \<Rightarrow> world \<Rightarrow> (string \<times> OpenStackNodeGroup) list \<times> world" where
  "rangeNodeGroups p w =
     (case ranges w of
        [] \<Rightarrow> (nodeGroups p, w)
      | order # rest \<Rightarrow> (visit order (nodeGroups p), w\<lparr>ranges := rest\<rparr>))"

definition GetNodeGroups :: "OpenStackProvider \<Rightarrow> world \<Rightarrow> OpenStackNodeGroup list \<times> world" where
  "GetNodeGroups p w =
     (case rangeNodeGroups p w of (entries, w') \<Rightarrow> (map snd entries, w'))"

definition GetNodeGroup :: "OpenStackProvider \<Rightarrow> string \<Rightarrow> OpenStackNodeGroup option" where
  "GetNodeGroup p gid = map_of (nodeGroups p) gid"

definition AddNodeGroup ::
  "OpenStackProvider \<Rightarrow> NodeGroupConfig \<Rightarrow> OpenStackNodeGroup result \<times> OpenStackProvider" where
  "AddNodeGroup p ngConfig =
     (case map_of (nodeGroups p) (ID ngConfig) of
        Some existing \<Rightarrow> (Inr existing, p)
      | None \<Rightarrow>
          (case NewOpenStackNodeGroup ngConfig of
             Inl e \<Rightarrow> (Inl (Wrap (''failed to create node group '' @ ID ngConfig) e), p)
           | Inr nodeGroup \<Rightarrow>
               (Inr nodeGroup,
                p\<lparr>nodeGroups := AList.update (ID ngConfig) nodeGroup (nodeGroups p)\<rparr>)))"

definition NodeGroupForNode ::
  "OpenStackProvider \<Rightarrow> string \<Rightarrow> world \<Rightarrow> OpenStackNodeGroup option result \<times> world" where
  "NodeGroupForNode p nodeProviderID w =
     (let serverID = TrimPrefix nodeProviderID (ProviderName @ ''://'')
      in if serverID = nodeProviderID then (Inl (InvalidProviderIDFormat nodeProviderID), w)
         else
           (case servers_Get serverID w of
              (Inl e, w') \<Rightarrow> (Inl (Wrap (''failed to get server '' @ serverID) e), w')
            | (Inr server, w') \<Rightarrow>
                (case rangeNodeGroups p w' of
                   (entries, w'') \<Rightarrow>
                     (Inr (find (\<lambda>ng. ContainsNode ng server) (map snd entries)), w''))))"

text \<open>\<^verbatim>\<open>Refresh\<close> reaches every group, in whatever order.\<close>

definition Provider_Refresh :: "OpenStackProvider \<Rightarrow> OpenStackProvider" where
  "Provider_Refresh p = p\<lparr>nodeGroups := map (\<lambda>(gid, ng). (gid, Refresh ng)) (nodeGroups p)\<rparr>"

subsection \<open>The gRPC adapter\<close>

text \<open>
  The handlers of \<^verbatim>\<open>OpenStackGrpcServer\<close> that delegate to the provider or to a node
  group. A handler answers with a response or with a status: a code and, where the message
  quotes one, the error of the provider.
\<close>

text \<open>
  Modelled from the spec: the protocol messages, generated code of \<^verbatim>\<open>api/protos\<close> that is
  not among the sources. A group answer carries id, minimum, maximum and a debug string;
  an instance reference carries a provider-qualified id, a name and label and annotation
  maps; an instance state is one of unspecified, running, creating and deleting; sizes
  and deltas are 32-bit integers, which the handlers convert from and to \<^verbatim>\<open>int\<close>.
\<close>

datatype code = codes_InvalidArgument | codes_NotFound | codes_Internal | codes_Unimplemented

datatype status = Status code "error option"

record pbNodeGroup =
  pb_Id :: string
  pb_MinSize :: int
  pb_MaxSize :: int
  pb_Debug :: string

record ExternalGrpcNode =
  pb_ProviderID :: string
  pb_Name :: string
  pb_Labels :: "string \<rightharpoonup> string"
  pb_Annotations :: "string \<rightharpoonup> string"

datatype InstanceState = unspecified | instanceRunning | instanceCreating | instanceDeleting

record pbInstance =
  pb_InstanceId :: string
  pb_InstanceState :: InstanceState

text \<open>The conversion \<^verbatim>\<open>int32(x)\<close> keeps the low 32 bits.\<close>

definition int32 :: "int \<Rightarrow> int" where
  "int32 x = sint (word_of_int x :: 32 word)"

definition toPbNodeGroup :: "OpenStackNodeGroup \<Rightarrow> pbNodeGroup" where
  "toPbNodeGroup ng =
     \<lparr>pb_Id = ID (Config ng),
      pb_MinSize = int32 (MinSize (Config ng)),
      pb_MaxSize = int32 (MaxSize (Config ng)),
      pb_Debug = ''NodeGroup '' @ ID (Config ng) @ '': min='' @ Itoa (MinSize (Config ng))
                 @ '', max='' @ Itoa (MaxSize (Config ng)) @ '', flavor='' @ FlavorName (Config ng)\<rparr>"

definition emptyPbNodeGroup :: pbNodeGroup where
  "emptyPbNodeGroup = \<lparr>pb_Id = [], pb_MinSize = 0, pb_MaxSize = 0, pb_Debug = []\<rparr>"

definition Grpc_NodeGroupForNode ::
  "OpenStackProvider \<Rightarrow> ExternalGrpcNode option \<Rightarrow> world \<Rightarrow> (status + pbNodeGroup) \<times> world" where
  "Grpc_NodeGroupForNode p reqNode w =
     (case reqNode of
        None \<Rightarrow> (Inl (Status codes_InvalidArgument None), w)
      | Some node \<Rightarrow>
          (case NodeGroupForNode p (pb_ProviderID node) w of
             (Inl err, w') \<Rightarrow> (Inr emptyPbNodeGroup, w')
           | (Inr None, w') \<Rightarrow> (Inr emptyPbNodeGroup, w')
           | (Inr (Some ng), w') \<Rightarrow> (Inr (toPbNodeGroup ng), w')))"

definition Grpc_NodeGroupTargetSize ::
  "OpenStackProvider \<Rightarrow> string \<Rightarrow> world \<Rightarrow> (status + int) \<times> world" where
  "Grpc_NodeGroupTargetSize p reqId w =
     (case GetNodeGroup p reqId of
        None \<Rightarrow> (Inl (Status codes_NotFound None), w)
      | Some ng \<Rightarrow>
          (case TargetSize ng w of
             (Inl err, w') \<Rightarrow> (Inl (Status codes_Internal (Some err)), w')
           | (Inr sz, w') \<Rightarrow> (Inr (int32 sz), w')))"

definition Grpc_NodeGroupIncreaseSize ::
  "OpenStackProvider \<Rightarrow> string \<Rightarrow> 32 word \<Rightarrow> world \<Rightarrow> (status + unit) \<times> world" where
  "Grpc_NodeGroupIncreaseSize p reqId reqDelta w =
     (case GetNodeGroup p reqId of
        None \<Rightarrow> (Inl (Status codes_NotFound None), w)
      | Some ng \<Rightarrow>
          (case IncreaseSize ng (sint reqDelta) w of
             (Inl err, w') \<Rightarrow> (Inl (Status codes_Internal (Some err)), w')
           | (Inr u, w') \<Rightarrow> (Inr (), w')))"

definition toNode :: "ExternalGrpcNode \<Rightarrow> Node" where
  "toNode pbNode =
     \<lparr>Node_Name = pb_Name pbNode,
      Node_Labels = pb_Labels pbNode,
      Node_Annotations = pb_Annotations pbNode,
      Node_ProviderID = pb_ProviderID pbNode,
      Node_Capacity = Map.empty,
      Node_Allocatable = Map.empty,
      Node_Conditions = []\<rparr>"

definition Grpc_NodeGroupDeleteNodes ::
  "OpenStackProvider \<Rightarrow> string \<Rightarrow> ExternalGrpcNode list \<Rightarrow> world \<Rightarrow> (status + unit) \<times> world" where
  "Grpc_NodeGroupDeleteNodes p reqId reqNodes w =
     (case GetNodeGroup p reqId of
        None \<Rightarrow> (Inl (Status codes_NotFound None), w)
      | Some ng \<Rightarrow>
          (case DeleteNodes ng (map toNode reqNodes) w of
             (Inl err, w') \<Rightarrow> (Inl (Status codes_Internal (Some err)), w')
           | (Inr u, w') \<Rightarrow> (Inr (), w')))"

definition Grpc_NodeGroupDecreaseTargetSize ::
  "OpenStackProvider \<Rightarrow> string \<Rightarrow> 32 word \<Rightarrow> world \<Rightarrow> (status + unit) \<times> world" where
  "Grpc_NodeGroupDecreaseTargetSize p reqId reqDelta w =
     (case GetNodeGroup p reqId of
        None \<Rightarrow> (Inl (Status codes_NotFound None), w)
      | Some ng \<Rightarrow>
          (case DecreaseTargetSize ng (sint reqDelta) w of
             (Inl err, w') \<Rightarrow> (Inl (Status codes_Internal (Some err)), w')
           | (Inr u, w') \<Rightarrow> (Inr (), w')))"

text \<open>
  The template handler. A node group is held by pointer, so the cache it fills is seen by
  the next request; here the updated group is stored back under its key. The encoding of
  the node, \<^verbatim>\<open>Marshal\<close>, is a parameter.
\<close>

definition Grpc_NodeGroupTemplateNodeInfo ::
  "(Node \<Rightarrow> error + string) \<Rightarrow> OpenStackProvider \<Rightarrow> string \<Rightarrow> world
     \<Rightarrow> (status + string) \<times> OpenStackProvider \<times> world" where
  "Grpc_NodeGroupTemplateNodeInfo Marshal p reqId w =
     (case GetNodeGroup p reqId of
        None \<Rightarrow> (Inl (Status codes_NotFound None), p, w)
      | Some ng \<Rightarrow>
          (case TemplateNodeInfo ng w of
             (Inl err, ng', w') \<Rightarrow>
               (Inl (Status codes_Internal (Some err)),
                p\<lparr>nodeGroups := AList.update reqId ng' (nodeGroups p)\<rparr>, w')
           | (Inr tmpl, ng', w') \<Rightarrow>
               (case Marshal (heap w' ! tmpl) of
                  Inl err \<Rightarrow>
                    (Inl (Status codes_Internal (Some err)),
                     p\<lparr>nodeGroups := AList.update reqId ng' (nodeGroups p)\<rparr>, w')
                | Inr nodeBytes \<Rightarrow>
                    (Inr nodeBytes,
                     p\<lparr>nodeGroups := AList.update reqId ng' (nodeGroups p)\<rparr>, w'))))"

definition toPbInstance :: "Server \<Rightarrow> pbInstance" where
  "toPbInstance server =
     \<lparr>pb_InstanceId = Server_ID server,
      pb_InstanceState =
        (if Server_Status server = ''ACTIVE'' then instanceRunning
         else if Server_Status server = ''BUILD'' then instanceCreating
         else if Server_Status server = ''DELETED'' \<or> Server_Status server = ''DELETING''
           then instanceDeleting
         else unspecified)\<rparr>"

definition Grpc_NodeGroupNodes ::
  "OpenStackProvider \<Rightarrow> string \<Rightarrow> world \<Rightarrow> (status + pbInstance list) \<times> world" where
  "Grpc_NodeGroupNodes p reqId w =
     (case GetNodeGroup p reqId of
        None \<Rightarrow> (Inl (Status codes_NotFound None), w)
      | Some ng \<Rightarrow>
          (case Nodes ng w of
             (Inl err, w') \<Rightarrow> (Inl (Status codes_Internal (Some err)), w')
           | (Inr srvs, w') \<Rightarrow> (Inr (map toPbInstance srvs), w')))"

subsection \<open>Observations\<close>

text \<open>
  What the properties below speak about: whether the next API call goes through, the
  instances attributed to a group, the target size as the specification defines it (the
  attributed instances that are active or provisioning), the numbers of create, delete and
  flavor-get calls issued so far, and what marks a server as created by a group.
\<close>

definition next_outcome :: "world \<Rightarrow> outcome" where
  "next_outcome w = (case script w of [] \<Rightarrow> Answered | Reply out d # rs \<Rightarrow> out)"

definition next_ok :: "world \<Rightarrow> bool" where
  "next_ok w = (next_outcome w = Answered)"

definition active :: "Server \<Rightarrow> bool" where
  "active s = (Server_Status s = ''ACTIVE'' \<or> Server_Status s = ''BUILD'')"

definition attributed :: "OpenStackNodeGroup \<Rightarrow> world \<Rightarrow> Server list" where
  "attributed ng w = filter (ContainsNode ng) (servers w)"

definition targetCount :: "OpenStackNodeGroup \<Rightarrow> world \<Rightarrow> int" where
  "targetCount ng w = int (length (filter active (attributed ng w)))"

fun isCreate :: "api_call \<Rightarrow> bool" where
  "isCreate (ServersCreate opts) = True"
| "isCreate c = False"

fun isDelete :: "api_call \<Rightarrow> bool" where
  "isDelete (ServersDelete sid) = True"
| "isDelete c = False"

definition creates :: "world \<Rightarrow> nat" where
  "creates w = length (filter isCreate (calls w))"

definition deletes :: "world \<Rightarrow> nat" where
  "deletes w = length (filter isDelete (calls w))"

definition createdBy :: "OpenStackNodeGroup \<Rightarrow> Server \<Rightarrow> bool" where
  "createdBy ng s =
     (Server_Metadata s ''nodegroup'' = Some (ID (Config ng)) \<and>
      prefix (ID (Config ng)) (Server_Name s) \<and>
      Server_Status s = ''BUILD'')"



text \<open>What an operation on servers leaves alone: the catalogues and the heap.\<close>

definition sameCatalog :: "world \<Rightarrow> world \<Rightarrow> bool" where
  "sameCatalog w w' = (flavors w' = flavors w \<and> images w' = images w \<and> heap w' = heap w)"





text \<open>
  The creation loop in the words of the specification: so many creations one after the
  other, the first that fails ending the operation, what was created before it staying.
\<close>

fun attempts :: "OpenStackNodeGroup \<Rightarrow> nat \<Rightarrow> world \<Rightarrow> unit result \<times> world" where
  "attempts ng 0 w = (Inr (), w)"
| "attempts ng (Suc n) w =
     (case createServer ng w of
        (Inl e, w') \<Rightarrow> (Inl (Wrap ''failed to create server'' e), w')
      | (Inr u, w') \<Rightarrow> attempts ng n w')"

text \<open>
  A world in which every coming call is answered, and one in which the image and the
  flavor of a group can be resolved.
\<close>

fun answered :: "reply \<Rightarrow> bool" where
  "answered (Reply out d) = (out = Answered)"

definition faultless :: "world \<Rightarrow> bool" where
  "faultless w = list_all answered (script w)"

definition resolvable :: "OpenStackNodeGroup \<Rightarrow> world \<Rightarrow> bool" where
  "resolvable ng w =
     ((ImageID (Config ng) \<noteq> [] \<or>
       filter (\<lambda>i. Image_Name i = ImageName (Config ng)) (images w) \<noteq> []) \<and>
      (find (\<lambda>f. Flavor_ID f = FlavorName (Config ng)) (flavors w) \<noteq> None \<or>
       find (\<lambda>f. Flavor_Name f = FlavorName (Config ng)) (flavors w) \<noteq> None))"

text \<open>
  A sequence of scaling operations on one group, stopping at the first that fails. The
  deltas are the 32-bit values of the protocol, converted as the handlers convert them.
\<close>

datatype scale_op = Increase "32 word" | Decrease "32 word"

fun apply_op :: "OpenStackNodeGroup \<Rightarrow> scale_op \<Rightarrow> world \<Rightarrow> unit result \<times> world" where
  "apply_op ng (Increase delta) w = IncreaseSize ng (sint delta) w"
| "apply_op ng (Decrease delta) w = DecreaseTargetSize ng (sint delta) w"

fun run_ops :: "OpenStackNodeGroup \<Rightarrow> scale_op list \<Rightarrow> world \<Rightarrow> unit result \<times> world" where
  "run_ops ng [] w = (Inr (), w)"
| "run_ops ng (op # ops) w =
     (case apply_op ng op w of
        (Inl e, w') \<Rightarrow> (Inl e, w')
      | (Inr u, w') \<Rightarrow> run_ops ng ops w')"

subsection \<open>A scenario\<close>

text \<open>
  The scenario of the specification: group \<open>g1\<close> with bounds 1 and 5, two active
  instances of the group (one tagged, one recognised by its name) and a third server that
  belongs to no group. \<open>world2\<close> is the world after \<open>g1\<close> has grown by two; the flavor
  is found by the catalogue scan, since no flavor has the configured name as identifier.
\<close>

definition cfg1 :: NodeGroupConfig where
  "cfg1 = \<lparr>ID = ''g1'', Name = ''workers'', MinSize = 1, MaxSize = 5, FlavorName = ''m1.small'',
            ImageName = [], ImageID = ''img-1'', KeyName = ''ops'', SecurityGroups = [''default''],
            NetworkID = ''net-1'', SubnetID = [], FloatingIPPool = [], AvailabilityZone = ''nova'',
            UserData = [], UserDataFile = [], Metadata = Map.empty, Labels = Map.empty\<rparr>"

definition g1 :: OpenStackNodeGroup where
  "g1 = \<lparr>Config = cfg1, templateNodeInfo = None, lastRefresh = zeroTime\<rparr>"

definition server1 :: Server where
  "server1 = \<lparr>Server_ID = ''a1'', Server_Name = ''random-42'', Server_Status = ''ACTIVE'',
               Server_Metadata = [''nodegroup'' \<mapsto> ''g1'']\<rparr>"

definition server2 :: Server where
  "server2 = \<lparr>Server_ID = ''a2'', Server_Name = ''g1-worker-07'', Server_Status = ''ACTIVE'',
               Server_Metadata = Map.empty\<rparr>"

definition server3 :: Server where
  "server3 = \<lparr>Server_ID = ''a3'', Server_Name = ''other-3'', Server_Status = ''ACTIVE'',
               Server_Metadata = Map.empty\<rparr>"

definition flavor1 :: Flavor where
  "flavor1 = \<lparr>Flavor_ID = ''42'', Flavor_Name = ''m1.small'', Flavor_VCPUs = 2, Flavor_RAM = 4096\<rparr>"

definition world0 :: world where
  "world0 = \<lparr>servers = [server1, server2, server3], flavors = [flavor1], images = [],
              script = [], calls = [], now = 0, heap = [], ranges = []\<rparr>"

definition opts1 :: CreateOpts where
  "opts1 = createOpts cfg1 ''img-1'' flavor1 0"

definition created1 :: "string \<Rightarrow> Server" where
  "created1 sid = \<lparr>Server_ID = sid, Server_Name = ''g1-0'', Server_Status = ''BUILD'',
                   Server_Metadata = Opts_Metadata opts1\<rparr>"

definition world1 :: world where
  "world1 = world0\<lparr>servers := [server1, server2, server3, created1 ''srv-4''],
                   calls := [ServersList, FlavorsGet ''m1.small'', FlavorsListDetail,
                             ServersCreate opts1]\<rparr>"

definition world2 :: world where
  "world2 = world0\<lparr>servers := [server1, server2, server3, created1 ''srv-4'', created1 ''srv-7''],
                   calls := [ServersList, FlavorsGet ''m1.small'', FlavorsListDetail,
                             ServersCreate opts1, FlavorsGet ''m1.small'', FlavorsListDetail,
                             ServersCreate opts1]\<rparr>"

text \<open>The same group with a lower bound of four, above the two instances it has.\<close>

definition g1_min4 :: OpenStackNodeGroup where
  "g1_min4 = g1\<lparr>Config := cfg1\<lparr>MinSize := 4\<rparr>\<rparr>"

text \<open>Two references for a delete: one to the first server, one with a foreign prefix.\<close>

definition node_a1 :: Node where
  "node_a1 = \<lparr>Node_Name = ''random-42'', Node_Labels = Map.empty, Node_Annotations = Map.empty,
               Node_ProviderID = ''openstack://a1'', Node_Capacity = Map.empty,
               Node_Allocatable = Map.empty, Node_Conditions = []\<rparr>"

definition node_bad :: Node where
  "node_bad = node_a1\<lparr>Node_Name := ''stray'', Node_ProviderID := ''aws:///i-0abc''\<rparr>"

text \<open>
  The directory holding \<open>g1\<close>; a request node with a foreign prefix and one naming a
  server the backend does not have; the template of \<open>g1\<close>, the group once it has cached
  it at address 0, and the world after that first template request.
\<close>

definition provider1 :: OpenStackProvider where
  "provider1 = \<lparr>nodeGroups = [(''g1'', g1)]\<rparr>"

definition pbnode_bad :: ExternalGrpcNode where
  "pbnode_bad = \<lparr>pb_ProviderID = ''aws:///i-0abc'', pb_Name = ''stray'', pb_Labels = Map.empty,
                  pb_Annotations = Map.empty\<rparr>"

definition pbnode_gone :: ExternalGrpcNode where
  "pbnode_gone = \<lparr>pb_ProviderID = ''openstack://zz'', pb_Name = ''gone'', pb_Labels = Map.empty,
                   pb_Annotations = Map.empty\<rparr>"




section \<open>Properties\<close>

subsection \<open>General facts\<close>

text \<open>
  A sum that lies in the 64-bit range does not wrap around; so it is with a count below
  \<open>2 ^ 62\<close> and a delta that arrived as a 32-bit value.
\<close>

lemma int64_add_fits:
  assumes "- (2 ^ 63) \<le> a + b" and "a + b < 2 ^ 63"
  shows "int64_add a b = a + b"
proof -
  have fits: "sint (word_of_int k :: 64 word) = k" if "- (2 ^ 63) \<le> k" "k < 2 ^ 63" for k :: int
    using that by (simp add: sint_sbintrunc' signed_take_bit_int_eq_self)
  from assms have "sint (word_of_int (a + b) :: 64 word) = a + b"
    by (rule fits)
  moreover have "(word_of_int a + word_of_int b :: 64 word) = word_of_int (a + b)"
    by (simp only: of_int_add)
  ultimately show ?thesis by (simp only: int64_add_def)
qed

lemma int64_add_exact:
  assumes "0 \<le> current" and "current < 2 ^ 62"
  shows "int64_add current (sint (delta :: 32 word)) = current + sint delta"
proof -
  have "- (2 ^ 31) \<le> sint delta" "sint delta < 2 ^ 31"
    using sint_ge [of delta] sint_lt [of delta] by simp_all
  with assms have "- (2 ^ 63) \<le> current + sint delta" "current + sint delta < 2 ^ 63"
    by simp_all
  then show ?thesis by (rule int64_add_fits)
qed

lemma Extract_Some [simp]:
  "ExtractServers (Some allServers) = Inr allServers"
  "ExtractFlavors (Some allFlavors) = Inr allFlavors"
  "ExtractImages name (Some allImages) = Inr allImages"
  by (simp_all add: ExtractServers_def ExtractFlavors_def ExtractImages_def)

lemma Contains_sublist: "Contains s sub = sublist sub s"
  by (induction s) (auto simp: sublist_Cons_right)

lemma TrimPrefix_same:
  assumes "p \<noteq> []"
  shows "TrimPrefix s p = s \<longleftrightarrow> \<not> prefix p s"
proof -
  have False if pre: "prefix p s" and eq: "drop (length p) s = s"
  proof -
    from pre have "length p \<le> length s" by (rule prefix_length_le)
    moreover from eq have "length s - length p = length s" by (metis length_drop)
    moreover from assms have "0 < length p" by simp
    ultimately show False by arith
  qed
  then show ?thesis by (auto simp: TrimPrefix_def)
qed

lemma request_fst: "fst (request c w) = next_outcome w"
  by (simp add: request_def next_outcome_def split: list.splits reply.splits)

lemma request_frame:
  "servers (snd (request c w)) = servers w"
  "flavors (snd (request c w)) = flavors w"
  "images (snd (request c w)) = images w"
  "heap (snd (request c w)) = heap w"
  "calls (snd (request c w)) = calls w @ [c]"
  by (simp_all add: request_def split: list.splits reply.splits)

lemma groupServers_filter: "groupServers ng acc xs = acc @ filter (ContainsNode ng) xs"
  by (induction xs arbitrary: acc) auto

lemma countInstances_filter: "countInstances c xs = c + int (length (filter active xs))"
  by (induction xs arbitrary: c) (auto simp: active_def)

lemma getInstances_eq:
  "getInstances ng w =
     (case next_outcome w of
        Answered \<Rightarrow> Inr (attributed ng w)
      | Failed \<Rightarrow> Inl (Wrap ''failed to list servers'' (ApiError ServersList))
      | Garbled \<Rightarrow> Inl (Wrap ''failed to extract servers'' (DecodeError ServersList)),
      snd (request ServersList w))"
  using request_fst [of ServersList w] request_frame(1) [of ServersList w]
  by (cases "request ServersList w")
    (auto simp: getInstances_def servers_List_def ExtractServers_def groupServers_filter
      attributed_def split: outcome.splits)

lemma TargetSize_eq:
  "TargetSize ng w =
     (case next_outcome w of
        Answered \<Rightarrow> Inr (targetCount ng w)
      | Failed \<Rightarrow> Inl (Wrap ''failed to get instances''
                    (Wrap ''failed to list servers'' (ApiError ServersList)))
      | Garbled \<Rightarrow> Inl (Wrap ''failed to get instances''
                    (Wrap ''failed to extract servers'' (DecodeError ServersList))),
      snd (request ServersList w))"
  by (simp add: TargetSize_def getInstances_eq countInstances_filter targetCount_def
      split: outcome.splits)

lemma sameCatalog_refl [simp]: "sameCatalog w w"
  by (simp add: sameCatalog_def)

lemma sameCatalog_trans: "sameCatalog w w1 \<Longrightarrow> sameCatalog w1 w2 \<Longrightarrow> sameCatalog w w2"
  by (simp add: sameCatalog_def)

lemma request_effect:
  assumes "request c w = (ok, w')"
  shows "servers w' = servers w" and "sameCatalog w w'" and "calls w' = calls w @ [c]"
  using assms request_frame [of c w] by (auto simp: sameCatalog_def)

lemma getImageID_effect:
  assumes "getImageID ng w = (r, w')"
  shows "servers w' = servers w" and "sameCatalog w w'" and "creates w' = creates w"
    and "deletes w' = deletes w"
  using assms
  by (auto simp: getImageID_def images_List_def creates_def deletes_def
      split: if_splits prod.splits sum.splits list.splits outcome.splits dest: request_effect)

lemma flavors_Get_effect:
  assumes "flavors_Get n w = (r, w')"
  shows "servers w' = servers w" and "sameCatalog w w'" and "creates w' = creates w"
    and "deletes w' = deletes w"
  using assms
  by (auto simp: flavors_Get_def creates_def deletes_def
      split: prod.splits option.splits outcome.splits dest: request_effect)

lemma flavors_ListDetail_effect:
  assumes "flavors_ListDetail w = (r, w')"
  shows "servers w' = servers w" and "sameCatalog w w'" and "creates w' = creates w"
    and "deletes w' = deletes w"
  using assms
  by (auto simp: flavors_ListDetail_def creates_def deletes_def
      split: prod.splits outcome.splits dest: request_effect)

lemma getFlavor_effect:
  assumes "getFlavor ng w = (r, w')"
  shows "servers w' = servers w" and "sameCatalog w w'" and "creates w' = creates w"
    and "deletes w' = deletes w"
proof -
  obtain r1 w1 where a: "flavors_Get (FlavorName (Config ng)) w = (r1, w1)"
    by (cases "flavors_Get (FlavorName (Config ng)) w")
  obtain r2 w2 where b: "flavors_ListDetail w1 = (r2, w2)"
    by (cases "flavors_ListDetail w1")
  note ea = flavors_Get_effect [OF a] and eb = flavors_ListDetail_effect [OF b]
  have "w' = w1 \<or> w' = w2"
    using assms a b by (auto simp: getFlavor_def split: sum.splits option.splits)
  then show "servers w' = servers w" and "sameCatalog w w'" and "creates w' = creates w"
    and "deletes w' = deletes w"
    using ea eb by (auto simp: sameCatalog_def)
qed

lemma createOpts_createdBy:
  "Opts_Metadata (createOpts (Config ng) imageID flavor unix) ''nodegroup'' = Some (ID (Config ng))"
  "prefix (ID (Config ng)) (Opts_Name (createOpts (Config ng) imageID flavor unix))"
  by (simp_all add: createOpts_def serverMetadata_def Let_def)

lemma servers_Create_effect:
  assumes "servers_Create opts w = (r, w')"
  shows "sameCatalog w w'" and "creates w' = creates w + 1" and "deletes w' = deletes w"
    and "(\<exists>e. r = Inl e) \<Longrightarrow> servers w' = servers w"
    and "(\<exists>s. r = Inr s) \<Longrightarrow> \<exists>s. servers w' = servers w @ [s] \<and> Server_Name s = Opts_Name opts \<and>
           Server_Metadata s = Opts_Metadata opts \<and> Server_Status s = ''BUILD''"
  using assms
  by (auto simp: servers_Create_def creates_def deletes_def sameCatalog_def Let_def
      split: prod.splits outcome.splits dest: request_effect)

lemma createServer_effect:
  assumes "createServer ng w = (r, w')"
  shows "sameCatalog w w'" and "deletes w' = deletes w"
    and "(\<exists>e. r = Inl e) \<Longrightarrow> servers w' = servers w \<and> creates w' \<in> {creates w, creates w + 1}"
    and "(\<exists>u. r = Inr u) \<Longrightarrow> creates w' = creates w + 1 \<and> (\<exists>s. servers w' = servers w @ [s] \<and> createdBy ng s)"
proof -
  obtain r1 w1 where g1: "getImageID ng w = (r1, w1)" by (cases "getImageID ng w")
  obtain r2 w2 where g2: "getFlavor ng w1 = (r2, w2)" by (cases "getFlavor ng w1")
  note e1 = getImageID_effect [OF g1] and e2 = getFlavor_effect [OF g2]
  have all: "sameCatalog w w' \<and> deletes w' = deletes w \<and>
     ((\<exists>e. r = Inl e) \<longrightarrow> servers w' = servers w \<and> creates w' \<in> {creates w, creates w + 1}) \<and>
     ((\<exists>u. r = Inr u) \<longrightarrow> creates w' = creates w + 1 \<and> (\<exists>s. servers w' = servers w @ [s] \<and> createdBy ng s))"
  proof (cases r1)
    case (Inl e)
    then show ?thesis using assms g1 e1 by (auto simp: createServer_def)
  next
    case imageID: (Inr imageID)
    show ?thesis
    proof (cases r2)
      case (Inl e)
      then show ?thesis using assms g1 g2 e1 e2 imageID
        by (auto simp: createServer_def sameCatalog_def)
    next
      case flavor: (Inr flavor)
      obtain r3 w3 where g3:
        "servers_Create (createOpts (Config ng) imageID flavor (Unix w2)) w2 = (r3, w3)"
        by (cases "servers_Create (createOpts (Config ng) imageID flavor (Unix w2)) w2")
      note e3 = servers_Create_effect [OF g3]
      have w': "w' = w3" and r: "r = (case r3 of Inl e \<Rightarrow> Inl (Wrap ''failed to create server'' e) | Inr s \<Rightarrow> Inr ())"
        using assms g1 g2 g3 imageID flavor by (auto simp: createServer_def split: sum.splits)
      show ?thesis
      proof (cases r3)
        case (Inl e)
        then show ?thesis using w' r e1 e2 e3(1-4) by (auto simp: sameCatalog_def)
      next
        case (Inr s0)
        then obtain s where "servers w3 = servers w2 @ [s]" "Server_Name s = Opts_Name (createOpts (Config ng) imageID flavor (Unix w2))"
          "Server_Metadata s = Opts_Metadata (createOpts (Config ng) imageID flavor (Unix w2))" "Server_Status s = ''BUILD''"
          using e3(5) by blast
        then have "servers w' = servers w @ [s]" and "createdBy ng s"
          using w' e1 e2 by (simp_all add: createdBy_def createOpts_createdBy)
        then show ?thesis using w' r Inr e1 e2 e3(1-3) by (auto simp: sameCatalog_def)
      qed
    qed
  qed
  from all show "sameCatalog w w'" and "deletes w' = deletes w"
    and "(\<exists>e. r = Inl e) \<Longrightarrow> servers w' = servers w \<and> creates w' \<in> {creates w, creates w + 1}"
    and "(\<exists>u. r = Inr u) \<Longrightarrow> creates w' = creates w + 1 \<and> (\<exists>s. servers w' = servers w @ [s] \<and> createdBy ng s)"
    by blast+
qed

lemma createServers_effect:
  assumes "createServers ng i delta w = (r, w')"
  shows "\<exists>new. servers w' = servers w @ new \<and> list_all (createdBy ng) new \<and>
           sameCatalog w w' \<and> deletes w' = deletes w \<and>
           (case r of
              Inr u \<Rightarrow> int (length new) = max 0 (delta - i) \<and> creates w' = creates w + length new
            | Inl e \<Rightarrow> int (length new) < delta - i \<and>
                       creates w' \<in> {creates w + length new, creates w + length new + 1})"
  using assms
proof (induction ng i delta w arbitrary: r w' rule: createServers.induct)
  case (1 ng i delta w)
  show ?case
  proof (cases "i < delta")
    case False
    then have "r = Inr ()" "w' = w"
      using "1.prems" by (simp_all add: createServers.simps)
    with False show ?thesis by simp
  next
    case True
    obtain r1 w1 where c: "createServer ng w = (r1, w1)" by (cases "createServer ng w")
    note e = createServer_effect [OF c]
    show ?thesis
    proof (cases r1)
      case (Inl e1)
      then have "r = Inl (Wrap ''failed to create server'' e1)" "w' = w1"
        using "1.prems" True c by (simp_all add: createServers.simps)
      then show ?thesis using e Inl True by auto
    next
      case (Inr u)
      then have rec: "createServers ng (i + 1) delta w1 = (r, w')"
        using "1.prems" True c by (simp add: createServers.simps)
      from "1.IH" [OF True c [symmetric] _ rec] Inr
      obtain new where n: "servers w' = servers w1 @ new" "list_all (createdBy ng) new"
        "sameCatalog w1 w'" "deletes w' = deletes w1"
        "(case r of
              Inr u \<Rightarrow> int (length new) = max 0 (delta - (i + 1)) \<and> creates w' = creates w1 + length new
            | Inl e \<Rightarrow> int (length new) < delta - (i + 1) \<and>
                       creates w' \<in> {creates w1 + length new, creates w1 + length new + 1})"
        by auto
      from e(4) Inr obtain s where s: "servers w1 = servers w @ [s]" "createdBy ng s"
        "creates w1 = creates w + 1" by auto
      have "servers w' = servers w @ (s # new)" using n(1) s(1) by simp
      moreover have "list_all (createdBy ng) (s # new)" using n(2) s(2) by simp
      moreover have "sameCatalog w w'" using e(1) n(3) by (rule sameCatalog_trans)
      moreover have "deletes w' = deletes w" using e(2) n(4) by simp
      moreover have "(case r of
              Inr u \<Rightarrow> int (length (s # new)) = max 0 (delta - i) \<and> creates w' = creates w + length (s # new)
            | Inl e \<Rightarrow> int (length (s # new)) < delta - i \<and>
                       creates w' \<in> {creates w + length (s # new), creates w + length (s # new) + 1})"
        using n(5) s(3) True by (auto split: sum.splits)
      ultimately show ?thesis by blast
    qed
  qed
qed

lemma TargetSize_effect:
  assumes "TargetSize ng w = (r, w1)"
  shows "servers w1 = servers w" and "sameCatalog w w1" and "calls w1 = calls w @ [ServersList]"
    and "creates w1 = creates w" and "deletes w1 = deletes w"
    and "targetCount ng w1 = targetCount ng w"
    and "\<And>c. r = Inr c \<Longrightarrow> c = targetCount ng w"
  using assms
  by (auto simp: TargetSize_eq request_frame sameCatalog_def creates_def deletes_def
      targetCount_def attributed_def split: outcome.splits)

lemma createdBy_counts: "createdBy ng s \<Longrightarrow> ContainsNode ng s \<and> active s"
  by (simp add: createdBy_def ContainsNode_def active_def)

lemma targetCount_append:
  assumes "servers w' = servers w @ new" and "list_all (createdBy ng) new"
  shows "targetCount ng w' = targetCount ng w + int (length new)"
proof -
  have "filter active (filter (ContainsNode ng) new) = new"
    using assms(2) by (induction new) (auto dest: createdBy_counts)
  then show ?thesis using assms(1) by (simp add: targetCount_def attributed_def)
qed

lemma targetCount_nonneg: "0 \<le> targetCount ng w"
  by (simp add: targetCount_def)

lemma IncreaseSize_unfold:
  assumes "0 < delta" and "TargetSize ng w = (Inr current, w1)"
  shows "IncreaseSize ng delta w =
     (if MaxSize (Config ng) < int64_add current delta
      then (Inl (CannotIncreaseSize (int64_add current delta) (MaxSize (Config ng))), w1)
      else createServers ng 0 delta w1)"
  using assms by (simp add: IncreaseSize_def Let_def)

lemma IncreaseSize_success:
  assumes "IncreaseSize ng delta w = (Inr u, w')"
  shows "\<exists>new. servers w' = servers w @ new \<and> length new = nat delta \<and> list_all (createdBy ng) new"
    and "0 < delta" and "int64_add (targetCount ng w) delta \<le> MaxSize (Config ng)"
proof -
  show d: "0 < delta" using assms by (auto simp: IncreaseSize_def split: if_splits)
  obtain r1 w1 where t: "TargetSize ng w = (r1, w1)" by (cases "TargetSize ng w")
  note te = TargetSize_effect [OF t]
  from assms d t obtain c where r1: "r1 = Inr c"
    by (cases r1) (auto simp: IncreaseSize_def)
  with te(7) have c: "c = targetCount ng w" by simp
  from assms IncreaseSize_unfold [OF d t [unfolded r1]]
  have le: "int64_add c delta \<le> MaxSize (Config ng)"
      and cs: "createServers ng 0 delta w1 = (Inr u, w')"
    by (auto split: if_splits)
  from le c show "int64_add (targetCount ng w) delta \<le> MaxSize (Config ng)" by simp
  from createServers_effect [OF cs] te(1) d
  show "\<exists>new. servers w' = servers w @ new \<and> length new = nat delta \<and> list_all (createdBy ng) new"
    by auto
qed

lemma IncreaseSize_created:
  assumes "IncreaseSize ng delta w = (r, w')"
  shows "\<exists>new. servers w' = servers w @ new \<and> list_all (createdBy ng) new"
proof (cases "0 < delta")
  case False
  with assms have "w' = w" by (simp add: IncreaseSize_def)
  then show ?thesis by simp
next
  case d: True
  obtain r1 w1 where t: "TargetSize ng w = (r1, w1)" by (cases "TargetSize ng w")
  note te = TargetSize_effect [OF t]
  show ?thesis
  proof (cases r1)
    case (Inl e)
    with assms d t have "w' = w1" by (simp add: IncreaseSize_def)
    with te(1) show ?thesis by simp
  next
    case (Inr c)
    show ?thesis
    proof (cases "MaxSize (Config ng) < int64_add c delta")
      case True
      with assms IncreaseSize_unfold [OF d t [unfolded Inr]] have "w' = w1" by simp
      with te(1) show ?thesis by simp
    next
      case False
      with assms IncreaseSize_unfold [OF d t [unfolded Inr]]
      have "createServers ng 0 delta w1 = (r, w')" by simp
      from createServers_effect [OF this] te(1) show ?thesis by auto
    qed
  qed
qed

lemma createServers_attempts:
  "createServers ng i delta w = attempts ng (nat (delta - i)) w"
proof (induction ng i delta w rule: createServers.induct)
  case (1 ng i delta w)
  show ?case
  proof (cases "i < delta")
    case False
    then show ?thesis by (simp add: createServers.simps)
  next
    case True
    then obtain n where n: "nat (delta - i) = Suc n" and n': "nat (delta - (i + 1)) = n"
      by (cases "nat (delta - i)") auto
    obtain r1 w1 where c: "createServer ng w = (r1, w1)" by (cases "createServer ng w")
    show ?thesis
    proof (cases r1)
      case (Inl e)
      with True c n show ?thesis by (simp add: createServers.simps)
    next
      case (Inr u)
      with "1.IH" [OF True c [symmetric]] n'
      have "createServers ng (i + 1) delta w1 = attempts ng n w1" by simp
      with True c n Inr show ?thesis by (simp add: createServers.simps)
    qed
  qed
qed

lemma request_faultless:
  assumes "faultless w"
  shows "fst (request c w) = Answered" and "faultless (snd (request c w))"
  using assms
  by (auto simp: request_def faultless_def split: list.splits reply.splits)

lemma resolvable_sameCatalog: "sameCatalog w w' \<Longrightarrow> resolvable ng w' = resolvable ng w"
  by (simp add: resolvable_def sameCatalog_def)

lemma createServer_succeeds:
  assumes "faultless w" and "resolvable ng w"
  shows "\<exists>w'. createServer ng w = (Inr (), w') \<and> faultless w' \<and> resolvable ng w'"
proof -
  have img: "\<exists>imageID w1. getImageID ng w = (Inr imageID, w1) \<and> faultless w1"
  proof (cases "ImageID (Config ng) = []")
    case False
    with assms(1) show ?thesis by (simp add: getImageID_def)
  next
    case True
    let ?c = "ImagesList (ImageName (Config ng))"
    obtain out w1 where r: "request ?c w = (out, w1)" by (cases "request ?c w")
    with request_faultless [OF assms(1), of ?c] have a: "out = Answered" "faultless w1" by simp_all
    from request_effect(2) [OF r] have "images w1 = images w" by (simp add: sameCatalog_def)
    with True assms(2) obtain i rest where
      "filter (\<lambda>i. Image_Name i = ImageName (Config ng)) (images w1) = i # rest"
      by (cases "filter (\<lambda>i. Image_Name i = ImageName (Config ng)) (images w)")
        (auto simp: resolvable_def)
    with True r a show ?thesis by (simp add: getImageID_def images_List_def)
  qed
  then obtain imageID w1 where g1: "getImageID ng w = (Inr imageID, w1)" and f1: "faultless w1"
    by blast
  note e1 = getImageID_effect [OF g1]
  have r1: "resolvable ng w1" using assms(2) resolvable_sameCatalog [OF e1(2)] by simp
  have flv: "\<exists>flavor w2. getFlavor ng w1 = (Inr flavor, w2) \<and> faultless w2"
  proof -
    let ?c = "FlavorsGet (FlavorName (Config ng))"
    obtain out wa where ra: "request ?c w1 = (out, wa)" by (cases "request ?c w1")
    with request_faultless [OF f1, of ?c] have a: "out = Answered" "faultless wa" by simp_all
    from request_effect(2) [OF ra] have fa: "flavors wa = flavors w1" by (simp add: sameCatalog_def)
    show ?thesis
    proof (cases "find (\<lambda>f. Flavor_ID f = FlavorName (Config ng)) (flavors w1)")
      case (Some f)
      with ra a fa show ?thesis by (simp add: getFlavor_def flavors_Get_def)
    next
      case None
      obtain out2 wb where rb: "request FlavorsListDetail wa = (out2, wb)"
        by (cases "request FlavorsListDetail wa")
      with request_faultless [OF a(2), of FlavorsListDetail]
      have b: "out2 = Answered" "faultless wb" by simp_all
      from request_effect(2) [OF rb] fa have fb: "flavors wb = flavors w1"
        by (simp add: sameCatalog_def)
      from None r1 obtain f where
        "find (\<lambda>f. Flavor_Name f = FlavorName (Config ng)) (flavors w1) = Some f"
        by (auto simp: resolvable_def)
      with None ra a fa rb b fb show ?thesis
        by (simp add: getFlavor_def flavors_Get_def flavors_ListDetail_def)
    qed
  qed
  then obtain flavor w2 where g2: "getFlavor ng w1 = (Inr flavor, w2)" and f2: "faultless w2"
    by blast
  note e2 = getFlavor_effect [OF g2]
  let ?o = "createOpts (Config ng) imageID flavor (Unix w2)"
  obtain out3 w3 where r3: "request (ServersCreate ?o) w2 = (out3, w3)"
    by (cases "request (ServersCreate ?o) w2")
  with request_faultless [OF f2, of "ServersCreate ?o"]
  have c: "out3 = Answered" "faultless w3" by simp_all
  obtain r w' where cs: "createServer ng w = (r, w')" by (cases "createServer ng w")
  from cs g1 g2 r3 c have "r = Inr ()" and "script w' = script w3"
    by (auto simp: createServer_def servers_Create_def Let_def)
  moreover from c(2) \<open>script w' = script w3\<close> have "faultless w'" by (simp add: faultless_def)
  moreover from createServer_effect(1) [OF cs] assms(2) have "resolvable ng w'"
    by (simp add: resolvable_sameCatalog)
  ultimately show ?thesis using cs by simp
qed

lemma attempts_succeed:
  assumes "faultless w" and "resolvable ng w"
  shows "\<exists>w'. attempts ng n w = (Inr (), w')"
  using assms
proof (induction n arbitrary: w)
  case 0
  then show ?case by simp
next
  case (Suc n)
  from createServer_succeeds [OF Suc.prems] obtain w1 where
    "createServer ng w = (Inr (), w1)" "faultless w1" "resolvable ng w1" by blast
  with Suc.IH [of w1] show ?case by simp
qed

lemma IncreaseSize_succeeds_from:
  assumes "0 < delta" and "TargetSize ng w = (Inr current, w1)"
    and "current + delta \<le> MaxSize (Config ng)" and "current + delta < 2 ^ 63"
    and "faultless w1" and "resolvable ng w1"
  shows "IncreaseSize ng delta w = attempts ng (nat delta) w1"
    and "\<exists>w'. IncreaseSize ng delta w = (Inr (), w')"
proof -
  from TargetSize_effect(7) [OF assms(2)] targetCount_nonneg [of ng w] have "0 \<le> current" by simp
  with assms(1,4) have "int64_add current delta = current + delta"
    by (intro int64_add_fits) simp_all
  with IncreaseSize_unfold [OF assms(1,2)] assms(3)
  show a: "IncreaseSize ng delta w = attempts ng (nat delta) w1"
    by (simp add: createServers_attempts)
  from attempts_succeed [OF assms(5,6)] a
  show "\<exists>w'. IncreaseSize ng delta w = (Inr (), w')" by simp
qed

lemma IncreaseSize_succeeds:
  assumes "0 < delta" and "faultless w" and "resolvable ng w"
    and "targetCount ng w + delta \<le> MaxSize (Config ng)" and "targetCount ng w + delta < 2 ^ 63"
  shows "\<exists>w'. IncreaseSize ng delta w = (Inr (), w')"
proof -
  let ?w1 = "snd (request ServersList w)"
  from request_faultless [OF assms(2), of ServersList] request_fst [of ServersList w]
  have o: "next_outcome w = Answered" and f: "faultless ?w1" by simp_all
  from o have t: "TargetSize ng w = (Inr (targetCount ng w), ?w1)" by (simp add: TargetSize_eq)
  from TargetSize_effect(2) [OF t] assms(3) have "resolvable ng ?w1"
    by (simp add: resolvable_sameCatalog)
  from IncreaseSize_succeeds_from(2) [OF assms(1) t assms(4,5) f this] show ?thesis .
qed

lemma DecreaseTargetSize_effect:
  assumes "DecreaseTargetSize ng delta w = (r, w')"
  shows "servers w' = servers w" and "deletes w' = deletes w" and "creates w' = creates w"
    and "calls w' = calls w \<or> calls w' = calls w @ [ServersList]" and "sameCatalog w w'"
proof -
  obtain r1 w1 where t: "TargetSize ng w = (r1, w1)" by (cases "TargetSize ng w")
  note te = TargetSize_effect [OF t]
  have "w' = w \<or> w' = w1"
    using assms t by (auto simp: DecreaseTargetSize_def Let_def split: if_splits sum.splits)
  then show "servers w' = servers w" and "deletes w' = deletes w" and "creates w' = creates w"
    and "calls w' = calls w \<or> calls w' = calls w @ [ServersList]" and "sameCatalog w w'"
    using te by auto
qed

lemma apply_op_bounds:
  assumes "apply_op ng op w = (Inr u, w')"
    and "MinSize (Config ng) \<le> targetCount ng w" and "targetCount ng w \<le> MaxSize (Config ng)"
    and "MaxSize (Config ng) < 2 ^ 62"
  shows "MinSize (Config ng) \<le> targetCount ng w' \<and> targetCount ng w' \<le> MaxSize (Config ng)"
proof (cases op)
  case (Increase delta)
  then have i: "IncreaseSize ng (sint delta) w = (Inr u, w')" using assms(1) by simp
  from IncreaseSize_success(1) [OF i] obtain new where
    n: "servers w' = servers w @ new" "length new = nat (sint delta)" "list_all (createdBy ng) new"
    by blast
  have "targetCount ng w < 2 ^ 62" using assms(3,4) by simp
  with targetCount_nonneg [of ng w]
  have "int64_add (targetCount ng w) (sint delta) = targetCount ng w + sint delta"
    by (rule int64_add_exact)
  with IncreaseSize_success(3) [OF i]
  have le: "targetCount ng w + sint delta \<le> MaxSize (Config ng)" by simp
  have "targetCount ng w' = targetCount ng w + sint delta"
    using targetCount_append [OF n(1) n(3)] n(2) IncreaseSize_success(2) [OF i] by simp
  then show ?thesis using IncreaseSize_success(2) [OF i] le assms(2) by simp
next
  case (Decrease delta)
  then have "DecreaseTargetSize ng (sint delta) w = (Inr u, w')" using assms(1) by simp
  from DecreaseTargetSize_effect(1) [OF this] have "targetCount ng w' = targetCount ng w"
    by (simp add: targetCount_def attributed_def)
  then show ?thesis using assms(2,3) by simp
qed

lemma deleteNode_malformed:
  assumes "\<not> prefix (ProviderName @ ''://'') (Node_ProviderID node)"
  shows "deleteNode ng node w = (Inl (InvalidProviderIDFormat (Node_ProviderID node)), w)"
  using assms by (simp add: deleteNode_def TrimPrefix_same Let_def)

lemma DeleteNodes_append:
  "DeleteNodes ng (pre @ rest) w =
     (case DeleteNodes ng pre w of
        (Inl e, w') \<Rightarrow> (Inl e, w')
      | (Inr u, w') \<Rightarrow> DeleteNodes ng rest w')"
  by (induction pre arbitrary: w) (auto split: prod.splits sum.splits)

lemma one_entry:
  "distinct (map fst al) \<Longrightarrow> map_of al k = Some v \<Longrightarrow> length (filter (\<lambda>entry. fst entry = k) al) = 1"
proof (induction al)
  case Nil
  then show ?case by simp
next
  case (Cons a al)
  show ?case
  proof (cases "fst a = k")
    case True
    with Cons.prems(1) have "k \<notin> fst ` set al" by auto
    then have "\<forall>entry \<in> set al. fst entry \<noteq> k" by blast
    then have "filter (\<lambda>entry. fst entry = k) al = []"
      by (simp add: filter_empty_conv)
    with True show ?thesis by simp
  next
    case False
    with Cons show ?thesis by (cases a) auto
  qed
qed








subsection \<open>The scenario, step by step\<close>

lemma Itoa_small: "Itoa 0 = ''0''" "Itoa 4 = ''4''" "Itoa 7 = ''7''"
  by (simp_all add: Itoa_def digits.simps)

lemma TargetSize_world0: "TargetSize g1 world0 = (Inr 2, world0\<lparr>calls := [ServersList]\<rparr>)"
  by (simp add: TargetSize_eq next_ok_def next_outcome_def targetCount_def attributed_def active_def
      ContainsNode_def request_def world0_def g1_def cfg1_def server1_def server2_def server3_def)

lemma createServer_world0:
  "createServer g1 (world0\<lparr>calls := [ServersList]\<rparr>) = (Inr (), world1)"
  by (simp add: createServer_def getImageID_def getFlavor_def flavors_Get_def
      flavors_ListDetail_def servers_Create_def request_def Unix_def world0_def world1_def
      g1_def cfg1_def flavor1_def opts1_def created1_def createOpts_def Itoa_small Let_def)

lemma createServer_world1: "createServer g1 world1 = (Inr (), world2)"
  by (simp add: createServer_def getImageID_def getFlavor_def flavors_Get_def
      flavors_ListDetail_def servers_Create_def request_def Unix_def world0_def world1_def world2_def
      g1_def cfg1_def flavor1_def opts1_def created1_def createOpts_def Itoa_small Let_def)

lemma int64_add_small:
  "int64_add 2 1 = 3" "int64_add 2 2 = 4" "int64_add 4 2 = 6"
  by (simp_all add: int64_add_fits)

lemma IncreaseSize_world0: "IncreaseSize g1 2 world0 = (Inr (), world2)"
proof -
  have "createServers g1 2 2 world2 = (Inr (), world2)"
    by (subst createServers.simps) simp
  then have "createServers g1 1 2 world1 = (Inr (), world2)"
    by (subst createServers.simps) (simp add: createServer_world1)
  then have "createServers g1 0 2 (world0\<lparr>calls := [ServersList]\<rparr>) = (Inr (), world2)"
    by (subst createServers.simps) (simp add: createServer_world0)
  moreover have "MaxSize (Config g1) = 5" by (simp add: g1_def cfg1_def)
  ultimately show ?thesis
    using IncreaseSize_unfold [OF _ TargetSize_world0, of 2] by (simp add: int64_add_small)
qed



lemma TargetSize_world2:
  "TargetSize g1 world2 = (Inr 4, world2\<lparr>calls := calls world2 @ [ServersList]\<rparr>)"
  by (simp add: TargetSize_eq next_ok_def next_outcome_def targetCount_def attributed_def active_def
      ContainsNode_def request_def world0_def world2_def g1_def cfg1_def server1_def server2_def
      server3_def created1_def opts1_def createOpts_def serverMetadata_def)

lemma targetCount_world0: "targetCount g1 world0 = 2"
  using TargetSize_effect(7) [OF TargetSize_world0] by simp

lemma IncreaseSize_min4: "IncreaseSize g1_min4 1 world0 = (Inr (), world1)"
proof -
  have t: "TargetSize g1_min4 world0 = (Inr 2, world0\<lparr>calls := [ServersList]\<rparr>)"
    by (simp add: TargetSize_eq next_ok_def next_outcome_def targetCount_def attributed_def active_def
        ContainsNode_def request_def world0_def g1_min4_def g1_def cfg1_def server1_def
        server2_def server3_def)
  have c: "createServer g1_min4 (world0\<lparr>calls := [ServersList]\<rparr>) = (Inr (), world1)"
    by (simp add: createServer_def getImageID_def getFlavor_def flavors_Get_def
        flavors_ListDetail_def servers_Create_def request_def Unix_def world0_def world1_def
        g1_min4_def g1_def cfg1_def flavor1_def opts1_def created1_def createOpts_def
        serverMetadata_def Itoa_small Let_def)
  have "createServers g1_min4 1 1 world1 = (Inr (), world1)"
    by (subst createServers.simps) simp
  then have "createServers g1_min4 0 1 (world0\<lparr>calls := [ServersList]\<rparr>) = (Inr (), world1)"
    by (subst createServers.simps) (simp add: c)
  moreover have "MaxSize (Config g1_min4) = 5" by (simp add: g1_min4_def g1_def cfg1_def)
  ultimately show ?thesis
    using IncreaseSize_unfold [OF _ t, of 1] by (simp add: int64_add_small)
qed

lemma DeleteNodes_a1:
  "DeleteNodes g1 [node_a1] world0 =
     (Inr (), world0\<lparr>servers := [server2, server3], calls := [ServersDelete ''a1'']\<rparr>)"
  by (simp add: deleteNode_def TrimPrefix_def ProviderName_def servers_Delete_def request_def
      node_a1_def world0_def server1_def server2_def server3_def Let_def)

lemma DeleteNodes_a1_bad:
  "DeleteNodes g1 [node_a1, node_bad] world0 =
     (Inl (Wrap ''failed to delete node stray'' (InvalidProviderIDFormat ''aws:///i-0abc'')),
      world0\<lparr>servers := [server2, server3], calls := [ServersDelete ''a1'']\<rparr>)"
  by (simp add: deleteNode_def TrimPrefix_def ProviderName_def servers_Delete_def request_def
      node_a1_def node_bad_def world0_def server1_def server2_def server3_def Let_def)

lemma AddNodeGroup_g1: "AddNodeGroup NewOpenStackProvider cfg1 = (Inr g1, provider1)"
  by (simp add: AddNodeGroup_def NewOpenStackProvider_def NewOpenStackNodeGroup_def
      validateConfig_def provider1_def g1_def cfg1_def)

lemma NodeGroupForNode_bad:
  "NodeGroupForNode provider1 ''aws:///i-0abc'' world0 =
     (Inl (InvalidProviderIDFormat ''aws:///i-0abc''), world0)"
  by (simp add: NodeGroupForNode_def TrimPrefix_def ProviderName_def Let_def)

lemma NodeGroupForNode_gone:
  "NodeGroupForNode provider1 ''openstack://zz'' world0 =
     (Inl (Wrap ''failed to get server zz'' (ApiError (ServersGet ''zz''))),
      world0\<lparr>calls := [ServersGet ''zz'']\<rparr>)"
  by (simp add: NodeGroupForNode_def TrimPrefix_def ProviderName_def Let_def servers_Get_def
      request_def world0_def server1_def server2_def server3_def)


subsection \<open>Attribution and target size\<close>

text \<open>
  Claim C4. A group claims an instance exactly when the instance's metadata carries the
  group tag (the key \<^verbatim>\<open>nodegroup\<close>) with the group's id as value, or carries no such tag
  and has the group's id as a substring of its name.
\<close>

theorem ContainsNode_attribution:
  "ContainsNode ng server \<longleftrightarrow>
     (Server_Metadata server ''nodegroup'' = Some (ID (Config ng)) \<or>
      Server_Metadata server ''nodegroup'' = None \<and> sublist (ID (Config ng)) (Server_Name server))"
  by (auto simp: ContainsNode_def Contains_sublist split: option.splits)

text \<open>
  The scenario of the claim: the instance tagged \<open>g1\<close> and named \<open>random-42\<close> and the
  untagged \<open>g1-worker-07\<close> are attributed to \<open>g1\<close>, the untagged \<open>other-3\<close> is not,
  and the provider, which knows \<open>g1\<close> alone, finds no group for it.
\<close>

theorem ContainsNode_attribution_witness:
  "ContainsNode g1 server1 \<and> ContainsNode g1 server2 \<and> \<not> ContainsNode g1 server3 \<and>
   fst (NodeGroupForNode provider1 ''openstack://a3'' world0) = Inr None"
proof -
  have a: "ContainsNode g1 server1 \<and> ContainsNode g1 server2 \<and> \<not> ContainsNode g1 server3"
    using ContainsNode_attribution [of g1 server1] ContainsNode_attribution [of g1 server2]
      ContainsNode_attribution [of g1 server3]
    by (simp add: g1_def cfg1_def server1_def server2_def server3_def sublist_Cons_right)
  then have "find (\<lambda>ng. ContainsNode ng server3) [g1] = None" by simp
  moreover have "servers_Get ''a3'' world0 = (Inr server3, world0\<lparr>calls := [ServersGet ''a3'']\<rparr>)"
    by (simp add: servers_Get_def request_def world0_def server1_def server2_def server3_def)
  ultimately have "fst (NodeGroupForNode provider1 ''openstack://a3'' world0) = Inr None"
    by (simp add: NodeGroupForNode_def TrimPrefix_def ProviderName_def provider1_def Let_def
        rangeNodeGroups_def world0_def)
  with a show ?thesis by simp
qed

text \<open>
  Claim C8. When the list call goes through, \<open>TargetSize\<close> returns the number of servers
  attributed to the group whose status is \<^verbatim>\<open>ACTIVE\<close> or \<^verbatim>\<open>BUILD\<close>; it fails, with a
  backend error, exactly when the list call fails; and it changes nothing: the servers, the
  catalogues and the heap are as before, and the list call is the only call issued.
\<close>

theorem TargetSize_counts:
  "(next_ok w \<longrightarrow> fst (TargetSize ng w) = Inr (targetCount ng w)) \<and>
   (\<not> next_ok w \<longrightarrow> (\<exists>e. fst (TargetSize ng w) = Inl e \<and> kind e = BackendUnavailable)) \<and>
   servers (snd (TargetSize ng w)) = servers w \<and>
   flavors (snd (TargetSize ng w)) = flavors w \<and>
   images (snd (TargetSize ng w)) = images w \<and>
   heap (snd (TargetSize ng w)) = heap w \<and>
   calls (snd (TargetSize ng w)) = calls w @ [ServersList]"
  by (cases "next_outcome w") (simp_all add: TargetSize_eq request_frame next_ok_def)

text \<open>In the scenario the target size is two; with a failing list call it is a backend error.\<close>

theorem TargetSize_counts_witness:
  "fst (TargetSize g1 world0) = Inr 2 \<and> servers (snd (TargetSize g1 world0)) = servers world0 \<and>
   (\<exists>e. fst (TargetSize g1 (world0\<lparr>script := [Reply Failed 5]\<rparr>)) = Inl e \<and> kind e = BackendUnavailable)"
  using TargetSize_counts [of world0 g1] TargetSize_counts [of "world0\<lparr>script := [Reply Failed 5]\<rparr>" g1]
  by (simp add: next_ok_def next_outcome_def targetCount_def attributed_def active_def ContainsNode_def
      world0_def g1_def cfg1_def server1_def server2_def server3_def)

subsection \<open>Scaling up and down\<close>




text \<open>
  Claim C10. Whatever the outcome of \<open>IncreaseSize\<close>, the servers it has added each carry
  the metadata key \<^verbatim>\<open>nodegroup\<close> with the group's id, have a name that begins with that
  id, and are attributed to the group by \<open>ContainsNode\<close>; when it succeeds they are
  \<open>delta\<close> in number, with \<open>delta\<close> positive; and it does succeed when every call is
  answered, the image and the flavor can be resolved and the new size is within the
  maximum and the range of \<^verbatim>\<open>int\<close>.
\<close>

theorem IncreaseSize_created_attributed:
  assumes "IncreaseSize ng delta w = (r, w')"
  shows "(\<exists>new. servers w' = servers w @ new \<and>
            (\<forall>s \<in> set new. Server_Metadata s ''nodegroup'' = Some (ID (Config ng)) \<and>
                            prefix (ID (Config ng)) (Server_Name s) \<and> ContainsNode ng s) \<and>
            (r = Inr () \<longrightarrow> length new = nat delta \<and> 0 < delta)) \<and>
         (0 < delta \<and> faultless w \<and> resolvable ng w \<and>
          targetCount ng w + delta \<le> MaxSize (Config ng) \<and> targetCount ng w + delta < 2 ^ 63
            \<longrightarrow> r = Inr ())"
proof -
  from IncreaseSize_created [OF assms]
  obtain new where n: "servers w' = servers w @ new" "list_all (createdBy ng) new" by blast
  have tagged: "\<forall>s \<in> set new. Server_Metadata s ''nodegroup'' = Some (ID (Config ng)) \<and>
          prefix (ID (Config ng)) (Server_Name s) \<and> ContainsNode ng s"
    using n(2) by (auto simp: list_all_iff createdBy_def ContainsNode_def)
  have len: "length new = nat delta \<and> 0 < delta" if "r = Inr ()"
  proof -
    from assms that have s: "IncreaseSize ng delta w = (Inr (), w')" by simp
    from IncreaseSize_success(1) [OF s] n(1) IncreaseSize_success(2) [OF s]
    show ?thesis by auto
  qed
  have good: "r = Inr ()"
    if "0 < delta" "faultless w" "resolvable ng w"
      "targetCount ng w + delta \<le> MaxSize (Config ng)" "targetCount ng w + delta < 2 ^ 63"
    using IncreaseSize_succeeds [OF that] assms by auto
  from n(1) tagged len good show ?thesis by blast
qed

text \<open>
  The scenario: every call is answered, the flavor and the image of \<open>g1\<close> can be resolved
  and two more instances fit under the maximum; growing \<open>g1\<close> by two succeeds and adds
  two servers, both tagged \<open>g1\<close>, named \<open>g1-0\<close> and attributed to \<open>g1\<close>.
\<close>

theorem IncreaseSize_created_attributed_witness:
  "faultless world0 \<and> resolvable g1 world0 \<and>
   targetCount g1 world0 + 2 \<le> MaxSize (Config g1) \<and>
   IncreaseSize g1 2 world0 = (Inr (), world2) \<and>
   servers world2 = servers world0 @ [created1 ''srv-4'', created1 ''srv-7''] \<and>
   Server_Metadata (created1 ''srv-4'') ''nodegroup'' = Some ''g1'' \<and>
   prefix ''g1'' (Server_Name (created1 ''srv-4'')) \<and> ContainsNode g1 (created1 ''srv-4'') \<and>
   Server_Metadata (created1 ''srv-7'') ''nodegroup'' = Some ''g1'' \<and>
   prefix ''g1'' (Server_Name (created1 ''srv-7'')) \<and> ContainsNode g1 (created1 ''srv-7'')"
proof -
  have i: "ID (Config g1) = ''g1''" by (simp add: g1_def cfg1_def)
  have s: "servers world2 = servers world0 @ [created1 ''srv-4'', created1 ''srv-7'']"
    by (simp add: world2_def world0_def)
  from IncreaseSize_created_attributed [OF IncreaseSize_world0] i
  obtain new where n: "servers world2 = servers world0 @ new"
    "\<forall>s \<in> set new. Server_Metadata s ''nodegroup'' = Some ''g1'' \<and>
        prefix ''g1'' (Server_Name s) \<and> ContainsNode g1 s"
    by auto
  from n(1) s have "new = [created1 ''srv-4'', created1 ''srv-7'']" by simp
  with n(2) have
    "Server_Metadata (created1 ''srv-4'') ''nodegroup'' = Some ''g1'' \<and>
     prefix ''g1'' (Server_Name (created1 ''srv-4'')) \<and> ContainsNode g1 (created1 ''srv-4'') \<and>
     Server_Metadata (created1 ''srv-7'') ''nodegroup'' = Some ''g1'' \<and>
     prefix ''g1'' (Server_Name (created1 ''srv-7'')) \<and> ContainsNode g1 (created1 ''srv-7'')"
    by simp
  moreover have "faultless world0" "resolvable g1 world0"
    by (simp_all add: faultless_def resolvable_def world0_def g1_def cfg1_def flavor1_def)
  moreover have "MaxSize (Config g1) = 5" by (simp add: g1_def cfg1_def)
  then have "targetCount g1 world0 + 2 \<le> MaxSize (Config g1)"
    by (simp add: targetCount_world0)
  ultimately show ?thesis using s IncreaseSize_world0 by blast
qed

text \<open>
  Claim C3. For a negative delta and a current target size \<open>current\<close> with
  \<open>current + delta\<close> below the minimum, \<open>DecreaseTargetSize\<close> fails with a capacity
  error. Whatever the delta and the outcome, the servers are as before, no delete call is
  issued, and the only call that can have been issued is the list call of the size query.
\<close>

theorem DecreaseTargetSize_no_delete:
  "(delta < 0 \<and> TargetSize ng w = (Inr current, w1) \<and> current + delta < MinSize (Config ng) \<longrightarrow>
      (\<exists>e. DecreaseTargetSize ng delta w = (Inl e, w1) \<and> kind e = CapacityExceeded)) \<and>
   servers (snd (DecreaseTargetSize ng delta w)) = servers w \<and>
   deletes (snd (DecreaseTargetSize ng delta w)) = deletes w \<and>
   (calls (snd (DecreaseTargetSize ng delta w)) = calls w \<or>
    calls (snd (DecreaseTargetSize ng delta w)) = calls w @ [ServersList])"
proof -
  have "DecreaseTargetSize ng delta w = (fst (DecreaseTargetSize ng delta w), snd (DecreaseTargetSize ng delta w))"
    by simp
  note e = DecreaseTargetSize_effect [OF this]
  have "delta < 0 \<and> TargetSize ng w = (Inr current, w1) \<and> current + delta < MinSize (Config ng) \<longrightarrow>
      (\<exists>e. DecreaseTargetSize ng delta w = (Inl e, w1) \<and> kind e = CapacityExceeded)"
    by (simp add: DecreaseTargetSize_def)
  with e(1,2,4) show ?thesis by blast
qed

theorem DecreaseTargetSize_no_delete_witness:
  "(\<exists>e. DecreaseTargetSize g1 (- 2) world0 = (Inl e, world0\<lparr>calls := [ServersList]\<rparr>) \<and>
        kind e = CapacityExceeded) \<and>
   servers (snd (DecreaseTargetSize g1 (- 2) world0)) = servers world0 \<and>
   deletes (snd (DecreaseTargetSize g1 (- 2) world0)) = deletes world0"
proof -
  have m: "MinSize (Config g1) = 1" by (simp add: g1_def cfg1_def)
  show ?thesis
    using DecreaseTargetSize_no_delete [of "- 2" g1 world0 2 "world0\<lparr>calls := [ServersList]\<rparr>"] m
    by (simp add: TargetSize_world0)
qed

text \<open>
  Claim C2, as stated, fails: the bounds need not hold after a successful sequence when
  they did not hold before it. The group with minimum four and two instances grows by one
  successfully and then has three instances, below its minimum.
\<close>

theorem bounds_counterexample:
  "run_ops g1_min4 [Increase 1] world0 = (Inr (), world1) \<and>
   fst (TargetSize g1_min4 world1) = Inr 3 \<and>
   \<not> MinSize (Config g1_min4) \<le> 3"
proof -
  have "fst (TargetSize g1_min4 world1) = Inr 3"
    by (simp add: TargetSize_eq next_ok_def next_outcome_def targetCount_def attributed_def active_def
        ContainsNode_def world0_def world1_def g1_min4_def g1_def cfg1_def server1_def
        server2_def server3_def created1_def opts1_def createOpts_def serverMetadata_def)
  moreover have "MinSize (Config g1_min4) = 4" by (simp add: g1_min4_def g1_def cfg1_def)
  ultimately show ?thesis by (simp add: IncreaseSize_min4)
qed

text \<open>
  Claim C2, amended. If the target size of a group lies between its minimum and its maximum,
  it still does after any successful sequence of \<open>IncreaseSize\<close> and
  \<open>DecreaseTargetSize\<close> operations on the group, and so does every value \<open>TargetSize\<close>
  then returns. The deltas are the 32-bit values the protocol carries and the maximum is
  below \<open>2 ^ 62\<close>, so that no sum of a size and a delta leaves the range of \<^verbatim>\<open>int\<close>.
\<close>

theorem run_ops_keeps_bounds:
  assumes "run_ops ng ops w = (Inr u, w')"
    and "MinSize (Config ng) \<le> targetCount ng w" and "targetCount ng w \<le> MaxSize (Config ng)"
    and "MaxSize (Config ng) < 2 ^ 62"
  shows "MinSize (Config ng) \<le> targetCount ng w' \<and> targetCount ng w' \<le> MaxSize (Config ng) \<and>
         (\<forall>c w''. TargetSize ng w' = (Inr c, w'') \<longrightarrow>
            MinSize (Config ng) \<le> c \<and> c \<le> MaxSize (Config ng))"
  using assms(1-3)
proof (induction ops arbitrary: w)
  case Nil
  then show ?case by (auto dest: TargetSize_effect(7))
next
  case (Cons op ops)
  obtain r1 w1 where a: "apply_op ng op w = (r1, w1)" by (cases "apply_op ng op w")
  with Cons.prems(1) obtain u1 where r1: "r1 = Inr u1" and rest: "run_ops ng ops w1 = (Inr u, w')"
    by (cases r1) auto
  from apply_op_bounds [OF a [unfolded r1] Cons.prems(2,3) assms(4)]
  show ?case using Cons.IH [OF rest] by simp
qed

theorem run_ops_keeps_bounds_witness:
  "run_ops g1 [Increase 2, Decrease (- 1)] world0 =
     (Inr (), world2\<lparr>calls := calls world2 @ [ServersList]\<rparr>) \<and>
   MinSize (Config g1) \<le> targetCount g1 (world2\<lparr>calls := calls world2 @ [ServersList]\<rparr>) \<and>
   targetCount g1 (world2\<lparr>calls := calls world2 @ [ServersList]\<rparr>) \<le> MaxSize (Config g1)"
proof -
  have m: "MinSize (Config g1) = 1" "MaxSize (Config g1) = 5" by (simp_all add: g1_def cfg1_def)
  have r: "run_ops g1 [Increase 2, Decrease (- 1)] world0 =
     (Inr (), world2\<lparr>calls := calls world2 @ [ServersList]\<rparr>)"
    by (simp add: IncreaseSize_world0 DecreaseTargetSize_def TargetSize_world2 m)
  from run_ops_keeps_bounds [OF r] m targetCount_world0 r show ?thesis by simp
qed

subsection \<open>Deleting nodes\<close>

text \<open>
  Claim C5, as stated, fails: \<open>DeleteNodes\<close> works through its list in order, so a
  reference without the prefix that follows a well-formed one is reached only after the
  delete call for the first has been issued.
\<close>

theorem DeleteNodes_counterexample:
  "\<not> prefix (ProviderName @ ''://'') (Node_ProviderID node_bad) \<and>
   node_bad \<in> set [node_a1, node_bad] \<and>
   calls (snd (DeleteNodes g1 [node_a1, node_bad] world0)) = [ServersDelete ''a1''] \<and>
   deletes (snd (DeleteNodes g1 [node_a1, node_bad] world0)) = deletes world0 + 1"
  unfolding DeleteNodes_a1_bad
  by (simp add: deletes_def node_bad_def node_a1_def ProviderName_def world0_def)

text \<open>
  Claim C5, amended. A reference whose provider id lacks the prefix \<^verbatim>\<open>openstack://\<close> makes
  \<open>deleteNode\<close> fail with an invalid-argument error and leave the world as it is. So
  \<open>DeleteNodes\<close> fails with that error and no call at all when the reference comes first;
  when the references before it have been deleted it fails with that error in the world
  they left, no further call issued; and when one of them fails, that earlier failure is
  the result.
\<close>

theorem DeleteNodes_malformed:
  assumes "\<not> prefix (ProviderName @ ''://'') (Node_ProviderID node)"
  shows "deleteNode ng node w = (Inl (InvalidProviderIDFormat (Node_ProviderID node)), w) \<and>
         (\<exists>e. DeleteNodes ng (node # post) w = (Inl e, w) \<and> kind e = InvalidArgument) \<and>
         (\<forall>w1. DeleteNodes ng pre w = (Inr (), w1) \<longrightarrow>
            (\<exists>e. DeleteNodes ng (pre @ node # post) w = (Inl e, w1) \<and> kind e = InvalidArgument)) \<and>
         (\<forall>e w1. DeleteNodes ng pre w = (Inl e, w1) \<longrightarrow>
            DeleteNodes ng (pre @ node # post) w = (Inl e, w1))"
  using assms by (simp add: deleteNode_malformed DeleteNodes_append)

text \<open>
  In the scenario: the foreign reference first, nothing is called; the foreign reference
  after the reference to the first server, that server is deleted and nothing more is called.
\<close>

theorem DeleteNodes_malformed_witness:
  "deleteNode g1 node_bad world0 = (Inl (InvalidProviderIDFormat ''aws:///i-0abc''), world0) \<and>
   (\<exists>e. DeleteNodes g1 [node_bad, node_a1] world0 = (Inl e, world0) \<and> kind e = InvalidArgument) \<and>
   (\<exists>e. DeleteNodes g1 [node_a1, node_bad] world0 =
           (Inl e, world0\<lparr>servers := [server2, server3], calls := [ServersDelete ''a1'']\<rparr>) \<and>
        kind e = InvalidArgument)"
proof -
  have b: "\<not> prefix (ProviderName @ ''://'') (Node_ProviderID node_bad)"
    by (simp add: node_bad_def node_a1_def ProviderName_def)
  have p: "Node_ProviderID node_bad = ''aws:///i-0abc''"
    by (simp add: node_bad_def node_a1_def)
  from DeleteNodes_malformed [OF b, of g1 world0 "[node_a1]" "[]"] p
  have first: "deleteNode g1 node_bad world0 = (Inl (InvalidProviderIDFormat ''aws:///i-0abc''), world0) \<and>
    (\<exists>e. DeleteNodes g1 [node_bad, node_a1] world0 = (Inl e, world0) \<and> kind e = InvalidArgument)"
    by simp
  from DeleteNodes_malformed [OF b, of g1 world0 "[]" "[node_a1]"] DeleteNodes_a1
  have "\<exists>e. DeleteNodes g1 ([node_a1] @ [node_bad]) world0 =
           (Inl e, world0\<lparr>servers := [server2, server3], calls := [ServersDelete ''a1'']\<rparr>) \<and>
        kind e = InvalidArgument"
    by blast
  with first show ?thesis by simp
qed

subsection \<open>The directory of groups\<close>

text \<open>
  Claim C6. In a directory with one entry for each key, when \<open>AddNodeGroup\<close> has returned
  a group for a configuration, a second call with a configuration of the same id returns
  that same group and leaves the directory as it is, with exactly one entry under the id.
\<close>

theorem AddNodeGroup_idempotent:
  assumes "distinct (map fst (nodeGroups p))"
    and "AddNodeGroup p cfg = (Inr ng, p1)" and "ID cfg' = ID cfg"
  shows "AddNodeGroup p1 cfg' = (Inr ng, p1) \<and>
         GetNodeGroup p1 (ID cfg) = Some ng \<and>
         length (filter (\<lambda>entry. fst entry = ID cfg) (nodeGroups p1)) = 1 \<and>
         distinct (map fst (nodeGroups p1))"
proof -
  have d: "distinct (map fst (nodeGroups p1))"
    using assms(1,2)
    by (auto simp: AddNodeGroup_def distinct_update split: option.splits sum.splits)
  have m: "map_of (nodeGroups p1) (ID cfg) = Some ng"
    using assms(2)
    by (auto simp: AddNodeGroup_def update_conv' split: option.splits sum.splits)
  from m assms(3) have "AddNodeGroup p1 cfg' = (Inr ng, p1)"
    by (simp add: AddNodeGroup_def)
  with d m one_entry [OF d m] show ?thesis by (simp add: GetNodeGroup_def)
qed

theorem AddNodeGroup_idempotent_witness:
  "AddNodeGroup NewOpenStackProvider cfg1 = (Inr g1, provider1) \<and>
   AddNodeGroup provider1 cfg1 = (Inr g1, provider1) \<and>
   GetNodeGroup provider1 ''g1'' = Some g1 \<and>
   length (filter (\<lambda>entry. fst entry = ''g1'') (nodeGroups provider1)) = 1"
proof -
  have "distinct (map fst (nodeGroups NewOpenStackProvider))"
    by (simp add: NewOpenStackProvider_def)
  from AddNodeGroup_idempotent [OF this AddNodeGroup_g1, of cfg1] AddNodeGroup_g1
  show ?thesis by (simp add: cfg1_def)
qed

subsection \<open>Error codes of the adapter\<close>

text \<open>
  Claim C7, as stated, fails. For a malformed provider id, and for a server the backend
  cannot fetch, the provider returns an error and the handler of the group-for-node request
  answers successfully with the empty group; and a non-positive delta, an invalid input,
  reaches the caller of the increase request as \<^verbatim>\<open>Internal\<close>.
\<close>

theorem Grpc_error_codes_counterexample:
  "fst (NodeGroupForNode provider1 (pb_ProviderID pbnode_bad) world0) =
     Inl (InvalidProviderIDFormat ''aws:///i-0abc'') \<and>
   Grpc_NodeGroupForNode provider1 (Some pbnode_bad) world0 = (Inr emptyPbNodeGroup, world0) \<and>
   kind (Wrap ''failed to get server zz'' (ApiError (ServersGet ''zz''))) = BackendUnavailable \<and>
   fst (NodeGroupForNode provider1 (pb_ProviderID pbnode_gone) world0) =
     Inl (Wrap ''failed to get server zz'' (ApiError (ServersGet ''zz''))) \<and>
   fst (Grpc_NodeGroupForNode provider1 (Some pbnode_gone) world0) = Inr emptyPbNodeGroup \<and>
   kind (DeltaMustBePositive 0) = InvalidArgument \<and>
   Grpc_NodeGroupIncreaseSize provider1 ''g1'' 0 world0 =
     (Inl (Status codes_Internal (Some (DeltaMustBePositive 0))), world0)"
  by (simp add: Grpc_NodeGroupForNode_def Grpc_NodeGroupIncreaseSize_def GetNodeGroup_def
      provider1_def IncreaseSize_def pbnode_bad_def pbnode_gone_def
      NodeGroupForNode_bad [unfolded provider1_def] NodeGroupForNode_gone [unfolded provider1_def])

text \<open>
  Claim C7, amended. For the requests that address a group (target size, increase,
  decrease, delete nodes, list nodes, template), an unknown group id gives \<^verbatim>\<open>NotFound\<close>,
  every error the node group returns, of whatever kind, gives \<^verbatim>\<open>Internal\<close>, and a result
  of the node group gives a response (for the template, when the node can be encoded, and
  \<^verbatim>\<open>Internal\<close> when it cannot). The group-for-node request gives \<^verbatim>\<open>InvalidArgument\<close> when it
  carries no node and only then: with a node it always answers successfully, with the
  empty group when the provider returns an error or finds no group, and with the group
  the provider finds otherwise.
\<close>

theorem Grpc_error_codes:
  "(GetNodeGroup p gid = None \<longrightarrow>
      Grpc_NodeGroupTargetSize p gid w = (Inl (Status codes_NotFound None), w) \<and>
      Grpc_NodeGroupIncreaseSize p gid delta w = (Inl (Status codes_NotFound None), w) \<and>
      Grpc_NodeGroupDecreaseTargetSize p gid delta w = (Inl (Status codes_NotFound None), w) \<and>
      Grpc_NodeGroupDeleteNodes p gid nodes w = (Inl (Status codes_NotFound None), w) \<and>
      Grpc_NodeGroupNodes p gid w = (Inl (Status codes_NotFound None), w) \<and>
      Grpc_NodeGroupTemplateNodeInfo Marshal p gid w = (Inl (Status codes_NotFound None), p, w)) \<and>
   (\<forall>ng e w'. GetNodeGroup p gid = Some ng \<longrightarrow>
      (TargetSize ng w = (Inl e, w') \<longrightarrow>
         Grpc_NodeGroupTargetSize p gid w = (Inl (Status codes_Internal (Some e)), w')) \<and>
      (IncreaseSize ng (sint delta) w = (Inl e, w') \<longrightarrow>
         Grpc_NodeGroupIncreaseSize p gid delta w = (Inl (Status codes_Internal (Some e)), w')) \<and>
      (DecreaseTargetSize ng (sint delta) w = (Inl e, w') \<longrightarrow>
         Grpc_NodeGroupDecreaseTargetSize p gid delta w = (Inl (Status codes_Internal (Some e)), w')) \<and>
      (DeleteNodes ng (map toNode nodes) w = (Inl e, w') \<longrightarrow>
         Grpc_NodeGroupDeleteNodes p gid nodes w = (Inl (Status codes_Internal (Some e)), w')) \<and>
      (Nodes ng w = (Inl e, w') \<longrightarrow>
         Grpc_NodeGroupNodes p gid w = (Inl (Status codes_Internal (Some e)), w')) \<and>
      (\<forall>ng'. TemplateNodeInfo ng w = (Inl e, ng', w') \<longrightarrow>
         fst (Grpc_NodeGroupTemplateNodeInfo Marshal p gid w) = Inl (Status codes_Internal (Some e)))) \<and>
   (\<forall>ng w'. GetNodeGroup p gid = Some ng \<longrightarrow>
      (\<forall>sz. TargetSize ng w = (Inr sz, w') \<longrightarrow>
         Grpc_NodeGroupTargetSize p gid w = (Inr (int32 sz), w')) \<and>
      (IncreaseSize ng (sint delta) w = (Inr (), w') \<longrightarrow>
         Grpc_NodeGroupIncreaseSize p gid delta w = (Inr (), w')) \<and>
      (DecreaseTargetSize ng (sint delta) w = (Inr (), w') \<longrightarrow>
         Grpc_NodeGroupDecreaseTargetSize p gid delta w = (Inr (), w')) \<and>
      (DeleteNodes ng (map toNode nodes) w = (Inr (), w') \<longrightarrow>
         Grpc_NodeGroupDeleteNodes p gid nodes w = (Inr (), w')) \<and>
      (\<forall>srvs. Nodes ng w = (Inr srvs, w') \<longrightarrow>
         Grpc_NodeGroupNodes p gid w = (Inr (map toPbInstance srvs), w')) \<and>
      (\<forall>tmpl ng'. TemplateNodeInfo ng w = (Inr tmpl, ng', w') \<longrightarrow>
         fst (Grpc_NodeGroupTemplateNodeInfo Marshal p gid w) =
           (case Marshal (heap w' ! tmpl) of
              Inl err \<Rightarrow> Inl (Status codes_Internal (Some err))
            | Inr nodeBytes \<Rightarrow> Inr nodeBytes))) \<and>
   Grpc_NodeGroupForNode p None w = (Inl (Status codes_InvalidArgument None), w) \<and>
   (\<exists>answer w'. Grpc_NodeGroupForNode p (Some node) w = (Inr answer, w')) \<and>
   (\<forall>e w'. NodeGroupForNode p (pb_ProviderID node) w = (Inl e, w') \<longrightarrow>
      Grpc_NodeGroupForNode p (Some node) w = (Inr emptyPbNodeGroup, w')) \<and>
   (\<forall>w'. NodeGroupForNode p (pb_ProviderID node) w = (Inr None, w') \<longrightarrow>
      Grpc_NodeGroupForNode p (Some node) w = (Inr emptyPbNodeGroup, w')) \<and>
   (\<forall>ng w'. NodeGroupForNode p (pb_ProviderID node) w = (Inr (Some ng), w') \<longrightarrow>
      Grpc_NodeGroupForNode p (Some node) w = (Inr (toPbNodeGroup ng), w'))"
proof -
  have always: "\<exists>answer w'. Grpc_NodeGroupForNode p (Some node) w = (Inr answer, w')"
    by (auto simp: Grpc_NodeGroupForNode_def split: prod.splits sum.splits option.splits)
  show ?thesis
    using always
    by (simp add: Grpc_NodeGroupTargetSize_def Grpc_NodeGroupIncreaseSize_def
        Grpc_NodeGroupDecreaseTargetSize_def Grpc_NodeGroupDeleteNodes_def Grpc_NodeGroupNodes_def
        Grpc_NodeGroupTemplateNodeInfo_def Grpc_NodeGroupForNode_def)
      (simp split: sum.split)
qed

theorem Grpc_error_codes_witness:
  "Grpc_NodeGroupIncreaseSize provider1 ''nope'' 1 world0 = (Inl (Status codes_NotFound None), world0) \<and>
   Grpc_NodeGroupIncreaseSize provider1 ''g1'' 0 world0 =
     (Inl (Status codes_Internal (Some (DeltaMustBePositive 0))), world0) \<and>
   Grpc_NodeGroupIncreaseSize provider1 ''g1'' 2 world0 = (Inr (), world2) \<and>
   Grpc_NodeGroupForNode provider1 (Some pbnode_bad) world0 = (Inr emptyPbNodeGroup, world0) \<and>
   (\<exists>answer w'. Grpc_NodeGroupForNode provider1 (Some pbnode_gone) world0 = (Inr answer, w'))"
proof -
  have a: "GetNodeGroup provider1 ''nope'' = None" "GetNodeGroup provider1 ''g1'' = Some g1"
    by (simp_all add: GetNodeGroup_def provider1_def)
  have b: "IncreaseSize g1 (sint (0 :: 32 word)) world0 = (Inl (DeltaMustBePositive 0), world0)"
    by (simp add: IncreaseSize_def)
  have b2: "IncreaseSize g1 (sint (2 :: 32 word)) world0 = (Inr (), world2)"
    using IncreaseSize_world0 by simp
  have c: "NodeGroupForNode provider1 (pb_ProviderID pbnode_bad) world0 =
     (Inl (InvalidProviderIDFormat ''aws:///i-0abc''), world0)"
    using NodeGroupForNode_bad by (simp add: pbnode_bad_def)
  note n = Grpc_error_codes [where p = provider1 and gid = "''nope''" and w = world0
      and delta = 1 and node = pbnode_bad]
  note z = Grpc_error_codes [where p = provider1 and gid = "''g1''" and w = world0
      and delta = 0 and node = pbnode_bad]
  note g = Grpc_error_codes [where p = provider1 and gid = "''g1''" and w = world0
      and delta = 2 and node = pbnode_gone]
  from n a have 1: "Grpc_NodeGroupIncreaseSize provider1 ''nope'' 1 world0 =
      (Inl (Status codes_NotFound None), world0)" by blast
  from z a b have 2: "Grpc_NodeGroupIncreaseSize provider1 ''g1'' 0 world0 =
     (Inl (Status codes_Internal (Some (DeltaMustBePositive 0))), world0)" by blast
  from g a b2 have 3: "Grpc_NodeGroupIncreaseSize provider1 ''g1'' 2 world0 = (Inr (), world2)"
    by blast
  from z c have 4: "Grpc_NodeGroupForNode provider1 (Some pbnode_bad) world0 =
      (Inr emptyPbNodeGroup, world0)" by blast
  from g have 5: "\<exists>answer w'. Grpc_NodeGroupForNode provider1 (Some pbnode_gone) world0 =
      (Inr answer, w')" by blast
  from 1 2 3 4 5 show ?thesis by blast
qed

subsection \<open>The template cache\<close>



end
